theory Spec2Isabelle
  imports Complex_Main "HOL-Library.Char_ord" "HOL-Library.List_Lexorder"
    "HOL-Library.Multiset"
begin

section \<open>Data model\<close>

text \<open>
  The ledger is the pandas DataFrame \<^verbatim>\<open>transactions_df\<close>: a sequence of rows in
  insertion order. Only the columns read by the accounting code are kept
  (\<^verbatim>\<open>Date\<close>, \<^verbatim>\<open>Ticker\<close>, \<^verbatim>\<open>Transaction Type\<close>, \<^verbatim>\<open>Price\<close>, \<^verbatim>\<open>Quantity\<close>, \<^verbatim>\<open>Total\<close>);
  broker, fee, VAT and notes columns are never read by the functions below.

  \<^item> A date is the ordinal number of a calendar day.
  \<^item> The transaction type column holds one of the two labels \<^verbatim>\<open>'Buy'\<close> and \<^verbatim>\<open>'Sell'\<close>.
  \<^item> \<^verbatim>\<open>Quantity\<close> is an int64 column: its values are integers, and what the code computes
    from them (the negation of line 22, the column sums) is computed in 64-bit
    two's-complement arithmetic, which wraps around (\<open>int64\<close> below). Nothing in the
    accounting code stops a row from carrying a non-positive quantity.
  \<^item> \<^verbatim>\<open>Price\<close> and \<^verbatim>\<open>Total\<close> are float64 columns. A finite binary float is a rational
    number, so the values have type \<open>rat\<close>; comparisons of floats are exact, the
    arithmetic on them is not, and it is modelled in the next section. Infinities and
    NaN are left out.
  \<^item> \<^verbatim>\<open>Total\<close> is a stored column of its own (negative for sells); the analytics read it
    and never recompute it from price and quantity.
\<close>

datatype txn_type = Buy | Sell

record transaction =
  Date :: int
  Ticker :: string
  Transaction_Type :: txn_type
  Price :: rat
  Quantity :: int
  Total :: rat

type_synonym ledger = "transaction list"

text \<open>A row of the holdings frame (the dictionary appended at lines 55--63).\<close>

record holding =
  hTicker :: string
  Shares :: int
  Average_Cost :: rat
  Total_Cost :: rat
  Current_Value :: rat
  Profit_Loss :: rat
  Return_Pct :: rat

text \<open>
  \<^verbatim>\<open>pd.DataFrame(rows)\<close> built from a list of dictionaries has the dictionaries' keys as
  columns. Built from the empty list it has no columns at all, and reading a column of
  it raises \<^verbatim>\<open>KeyError\<close>; the frame returned for an empty ledger (line 16) is empty too
  but does carry the seven columns. The two are told apart here.
\<close>

datatype holdings_frame = NoColumns | Frame "holding list"

fun frame_rows :: "holdings_frame \<Rightarrow> holding list" where
  "frame_rows NoColumns = []"
| "frame_rows (Frame rows) = rows"

fun frame_empty :: "holdings_frame \<Rightarrow> bool" where
  "frame_empty NoColumns = True"
| "frame_empty (Frame rows) = (rows = [])"

fun has_columns :: "holdings_frame \<Rightarrow> bool" where
  "has_columns NoColumns = False"
| "has_columns (Frame rows) = True"

definition data_frame :: "holding list \<Rightarrow> holdings_frame" where
  "data_frame rows = (if rows = [] then NoColumns else Frame rows)"

section \<open>Arithmetic\<close>

text \<open>
  The value of an int64 computation: the integer result reduced into the range from
  \<open>- 2 ^ 63\<close> to \<open>2 ^ 63 - 1\<close>. Addition modulo \<open>2 ^ 64\<close> is associative, so the sum of
  a column is the wrapped sum of its values whatever the order of the additions.
\<close>

definition int64 :: "int \<Rightarrow> int" where
  "int64 n = (n + 2 ^ 63) mod 2 ^ 64 - 2 ^ 63"

text \<open>
  Float arithmetic rounds every result to a binary float, the sum of a column is
  accumulated in an order that numpy chooses, and \<^verbatim>\<open>round(2)\<close> rounds a binary float that
  is only near the decimal it stands for. None of this is fixed here: the functions
  take the arithmetic as an argument, a record of the operations the code uses, and
  the properties below hold for every such record, float64 arithmetic among them as
  long as its results are finite: the results are rationals, and a computation that
  overflows to an infinity or yields NaN is outside the model.
\<close>

record arith =
  f_of_int :: "int \<Rightarrow> rat"
  f_add :: "rat \<Rightarrow> rat \<Rightarrow> rat"
  f_sub :: "rat \<Rightarrow> rat \<Rightarrow> rat"
  f_mul :: "rat \<Rightarrow> rat \<Rightarrow> rat"
  f_div :: "rat \<Rightarrow> rat \<Rightarrow> rat"
  f_sum :: "rat list \<Rightarrow> rat"
  f_round :: "rat \<Rightarrow> rat"

text \<open>
  What is used of float arithmetic beyond that: zero behaves exactly. A product with a
  zero factor is zero, adding or subtracting zero changes nothing, zero divided by a
  number is zero, and zero rounds to zero. (The integer 0 that the code assigns in some
  branches and the float 0.0 are the same number here.)
\<close>

definition fadd :: "arith \<Rightarrow> rat \<Rightarrow> rat \<Rightarrow> rat" where
  "fadd ar x y = (if x = 0 then y else if y = 0 then x else f_add ar x y)"

definition fsub :: "arith \<Rightarrow> rat \<Rightarrow> rat \<Rightarrow> rat" where
  "fsub ar x y = (if y = 0 then x else f_sub ar x y)"

definition fmul :: "arith \<Rightarrow> rat \<Rightarrow> rat \<Rightarrow> rat" where
  "fmul ar x y = (if x = 0 \<or> y = 0 then 0 else f_mul ar x y)"

definition fdiv :: "arith \<Rightarrow> rat \<Rightarrow> rat \<Rightarrow> rat" where
  "fdiv ar x y = (if x = 0 then 0 else f_div ar x y)"

definition round2 :: "arith \<Rightarrow> rat \<Rightarrow> rat" where
  "round2 ar x = (if x = 0 then 0 else f_round ar x)"

text \<open>
  One arithmetic to compute examples with: every operation exact, and rounding to two
  decimals with ties going to the even cent. It is not float64 arithmetic: 10/3 is
  exact here and the nearest binary float there, and 3.33 stands for the binary float
  nearest to it. The counterexamples below are chosen so that float64 arithmetic gives
  the same outputs, up to that.
\<close>

definition rint :: "rat \<Rightarrow> int" where
  "rint x = (let f = \<lfloor>x\<rfloor>; d = x - of_int f in
     if d < 1 / 2 then f else if 1 / 2 < d then f + 1 else if even f then f else f + 1)"

definition exact_arith :: arith where
  "exact_arith =
     \<lparr>f_of_int = of_int, f_add = (+), f_sub = (-), f_mul = (*), f_div = (/),
      f_sum = sum_list, f_round = (\<lambda>x. of_int (rint (x * 100)) / 100)\<rparr>"

section \<open>Errors\<close>

text \<open>
  Every operation of the source that can fail is a branch of the model. A division
  whose divisor is zero is recorded as \<open>ZeroDivisionError\<close> (on numpy floats the source
  would carry on with \<^verbatim>\<open>inf\<close> or \<^verbatim>\<open>nan\<close> and a warning; the model stops there, so that
  ``no division by zero occurs'' is a statement about the result).
\<close>

datatype error = ZeroDivisionError | IndexError | KeyError

definition ebind :: "error + 'a \<Rightarrow> ('a \<Rightarrow> error + 'b) \<Rightarrow> error + 'b" where
  "ebind m f = (case m of Inl e \<Rightarrow> Inl e | Inr v \<Rightarrow> f v)"

definition divide_checked :: "arith \<Rightarrow> rat \<Rightarrow> rat \<Rightarrow> error + rat" where
  "divide_checked ar a b = (if b = 0 then Inl ZeroDivisionError else Inr (fdiv ar a b))"

text \<open>A float divided by an int64: the divisor is converted to a float.\<close>

definition divide_by_int :: "arith \<Rightarrow> rat \<Rightarrow> int \<Rightarrow> error + rat" where
  "divide_by_int ar a n =
     (if n = 0 then Inl ZeroDivisionError else Inr (fdiv ar a (f_of_int ar n)))"

text \<open>\<^verbatim>\<open>group.iloc[-1]\<close>: the last row, \<^verbatim>\<open>IndexError\<close> on an empty frame.\<close>

definition iloc_last :: "'a list \<Rightarrow> error + 'a" where
  "iloc_last rows = (if rows = [] then Inl IndexError else Inr (last rows))"

text \<open>\<^verbatim>\<open>frame[col]\<close> and \<^verbatim>\<open>frame[col].sum()\<close> on a holdings frame.\<close>

definition column :: "(holding \<Rightarrow> 'a) \<Rightarrow> holdings_frame \<Rightarrow> error + 'a list" where
  "column col fr = (case fr of NoColumns \<Rightarrow> Inl KeyError | Frame rows \<Rightarrow> Inr (map col rows))"

definition column_sum :: "arith \<Rightarrow> (holding \<Rightarrow> rat) \<Rightarrow> holdings_frame \<Rightarrow> error + rat" where
  "column_sum ar col fr = ebind (column col fr) (\<lambda>vs. Inr (f_sum ar vs))"

section \<open>Holdings Calculator (\<^verbatim>\<open>get_current_holdings\<close>)\<close>

text \<open>Line 22: in the working copy the quantity of every Sell row is negated.\<close>

definition negate_sells :: "ledger \<Rightarrow> ledger" where
  "negate_sells df =
     map (\<lambda>t. if Transaction_Type t = Sell then t\<lparr>Quantity := int64 (- Quantity t)\<rparr> else t)
       df"

text \<open>
  \<^verbatim>\<open>groupby('Ticker')\<close>: one group per distinct ticker, keys in ascending order, each
  group holding its rows in the frame's order.
\<close>

definition groupby_Ticker :: "ledger \<Rightarrow> (string \<times> ledger) list" where
  "groupby_Ticker df =
     map (\<lambda>k. (k, filter (\<lambda>t. Ticker t = k) df)) (sort (remdups (map Ticker df)))"

text \<open>Lines 37--63: the body of the loop for a group that is not skipped.\<close>

definition holding_row :: "arith \<Rightarrow> string \<Rightarrow> ledger \<Rightarrow> int \<Rightarrow> error + holding" where
  "holding_row ar tk grp shares =
     (let buys = filter (\<lambda>t. Transaction_Type t = Buy) grp in
      ebind (if buys \<noteq> [] then
              (let total_cost = f_sum ar (map Total buys);
                   total_bought_shares = int64 (sum_list (map Quantity buys))
               in if 0 < total_bought_shares
                  then divide_by_int ar total_cost total_bought_shares
                  else Inr 0)
            else Inr 0) (\<lambda>avg_cost.
      ebind (iloc_last grp) (\<lambda>last_row.
        let last_price = Price last_row;
            cur_value = fmul ar (f_of_int ar shares) last_price;
            pl = fsub ar cur_value (fmul ar avg_cost (f_of_int ar shares))
        in
      ebind (if 0 < fmul ar avg_cost (f_of_int ar shares)
            then ebind (divide_checked ar pl (fmul ar avg_cost (f_of_int ar shares)))
                   (\<lambda>q. Inr (fmul ar q 100))
            else Inr 0) (\<lambda>ret.
        Inr \<lparr>hTicker = tk, Shares = shares, Average_Cost = avg_cost,
             Total_Cost = fmul ar avg_cost (f_of_int ar shares), Current_Value = cur_value,
             Profit_Loss = pl, Return_Pct = ret\<rparr>))))"

text \<open>Lines 28--63: the loop over the groups, building \<^verbatim>\<open>holdings_list\<close>.\<close>

fun holdings_loop :: "arith \<Rightarrow> (string \<times> ledger) list \<Rightarrow> error + holding list" where
  "holdings_loop ar [] = Inr []"
| "holdings_loop ar ((tk, grp) # rest) =
     (let shares = int64 (sum_list (map Quantity grp)) in
      if shares \<le> 0 then holdings_loop ar rest
      else ebind (holding_row ar tk grp shares) (\<lambda>row.
           ebind (holdings_loop ar rest) (\<lambda>rows. Inr (row # rows))))"

definition holdings_list :: "arith \<Rightarrow> ledger \<Rightarrow> error + holding list" where
  "holdings_list ar df = holdings_loop ar (groupby_Ticker (negate_sells df))"

text \<open>Lines 69--72: the money columns and the percentage are rounded to two decimals.\<close>

definition format_holding :: "arith \<Rightarrow> holding \<Rightarrow> holding" where
  "format_holding ar h =
     h\<lparr>Average_Cost := round2 ar (Average_Cost h), Total_Cost := round2 ar (Total_Cost h),
       Current_Value := round2 ar (Current_Value h), Profit_Loss := round2 ar (Profit_Loss h),
       Return_Pct := round2 ar (Return_Pct h)\<rparr>"

definition format_holdings :: "arith \<Rightarrow> holdings_frame \<Rightarrow> holdings_frame" where
  "format_holdings ar fr =
     (if \<not> frame_empty fr then Frame (map (format_holding ar) (frame_rows fr)) else fr)"

definition get_current_holdings :: "arith \<Rightarrow> ledger \<Rightarrow> error + holdings_frame" where
  "get_current_holdings ar df =
     (if df = [] then Inr (Frame [])
      else ebind (holdings_list ar df) (\<lambda>rows. Inr (format_holdings ar (data_frame rows))))"

section \<open>Portfolio Summary Aggregator (\<^verbatim>\<open>get_portfolio_summary\<close>)\<close>

record summary =
  total_invested :: rat
  current_value :: rat
  profit_loss :: rat
  return_pct :: rat
  total_transactions :: nat
  total_buys :: nat
  total_sells :: nat

definition get_portfolio_summary :: "arith \<Rightarrow> ledger \<Rightarrow> error + summary" where
  "get_portfolio_summary ar df =
     (if df = [] then
        Inr \<lparr>total_invested = 0, current_value = 0, profit_loss = 0, return_pct = 0,
             total_transactions = 0, total_buys = 0, total_sells = 0\<rparr>
      else
      ebind (get_current_holdings ar df) (\<lambda>holdings.
      ebind (if \<not> frame_empty holdings then column_sum ar Total_Cost holdings else Inr 0)
        (\<lambda>invested.
      ebind (if \<not> frame_empty holdings then column_sum ar Current_Value holdings else Inr 0)
        (\<lambda>cur_value.
      let pl = fsub ar cur_value invested in
      ebind (if 0 < invested
             then ebind (divide_checked ar pl invested) (\<lambda>q. Inr (fmul ar q 100))
             else Inr 0) (\<lambda>ret.
        Inr \<lparr>total_invested = invested, current_value = cur_value, profit_loss = pl,
             return_pct = ret, total_transactions = length df,
             total_buys = length (filter (\<lambda>t. Transaction_Type t = Buy) df),
             total_sells = length (filter (\<lambda>t. Transaction_Type t = Sell) df)\<rparr>)))))"

section \<open>Historical Performance Reconstructor (\<^verbatim>\<open>calculate_historical_performance\<close>)\<close>

record performance_point =
  pDate :: int
  Portfolio_Value :: rat

text \<open>
  \<^verbatim>\<open>sort_values('Date')\<close> returns the rows in ascending date order. pandas sorts with
  numpy's quicksort by default, which is not stable: where rows with equal dates end
  up is not fixed. The function takes the sort as an argument \<open>srt\<close>; what is known of
  it is that it rearranges the rows into ascending date order.
\<close>

definition sorts_by_Date :: "(ledger \<Rightarrow> ledger) \<Rightarrow> bool" where
  "sorts_by_Date srt \<longleftrightarrow> (\<forall>df. mset (srt df) = mset df \<and> sorted (map Date (srt df)))"

text \<open>\<^verbatim>\<open>Series.unique()\<close>: the distinct values in order of first appearance.\<close>

fun unique_from :: "'a list \<Rightarrow> 'a list \<Rightarrow> 'a list" where
  "unique_from seen [] = []"
| "unique_from seen (x # xs) =
     (if x \<in> set seen then unique_from seen xs else x # unique_from (x # seen) xs)"

definition unique :: "'a list \<Rightarrow> 'a list" where
  "unique xs = unique_from [] xs"

text \<open>Lines 143--151: one point per date, from the holdings of the rows up to that date.\<close>

fun performance_loop :: "arith \<Rightarrow> ledger \<Rightarrow> int list \<Rightarrow> error + performance_point list" where
  "performance_loop ar sorted_df [] = Inr []"
| "performance_loop ar sorted_df (d # ds) =
     ebind (get_current_holdings ar (filter (\<lambda>t. Date t \<le> d) sorted_df)) (\<lambda>holdings.
     ebind (if \<not> frame_empty holdings then column_sum ar Current_Value holdings else Inr 0)
       (\<lambda>portfolio_value.
     ebind (performance_loop ar sorted_df ds) (\<lambda>rest.
       Inr (\<lparr>pDate = d, Portfolio_Value = portfolio_value\<rparr> # rest))))"

definition calculate_historical_performance ::
    "arith \<Rightarrow> (ledger \<Rightarrow> ledger) \<Rightarrow> ledger \<Rightarrow> error + performance_point list" where
  "calculate_historical_performance ar srt df =
     (if df = [] then Inr []
      else let sorted_df = srt df;
               dates = unique (map Date sorted_df)
           in performance_loop ar sorted_df dates)"

section \<open>Profit/Loss Report Generator (\<^verbatim>\<open>generate_profit_loss_report\<close>)\<close>

record report_row =
  rTicker :: string
  Buy_Cost :: rat
  Sell_Revenue :: rat
  Realized_Profit_Loss :: rat
  Unrealized_Profit_Loss :: rat
  Total_Profit_Loss :: rat

text \<open>\<^verbatim>\<open>series.values[0]\<close>: the first value, \<^verbatim>\<open>IndexError\<close> when there is none.\<close>

definition values0 :: "'a list \<Rightarrow> error + 'a" where
  "values0 vs = (case vs of [] \<Rightarrow> Inl IndexError | v # _ \<Rightarrow> Inr v)"

text \<open>
  Lines 199--204: the ticker's Profit/Loss in the current holdings, 0 when the frame is
  empty, has no Ticker column or does not list the ticker.
\<close>

definition unrealized_lookup :: "string \<Rightarrow> holdings_frame \<Rightarrow> error + rat" where
  "unrealized_lookup tk current_holdings =
     (if \<not> frame_empty current_holdings \<and> has_columns current_holdings then
        ebind (column hTicker current_holdings) (\<lambda>tickers.
          if tk \<in> set tickers
          then values0 (map Profit_Loss
                 (filter (\<lambda>h. hTicker h = tk) (frame_rows current_holdings)))
          else Inr 0)
      else Inr 0)"

text \<open>Lines 177--216: the report row of one ticker group.\<close>

definition report_row_of ::
    "arith \<Rightarrow> holdings_frame \<Rightarrow> string \<Rightarrow> ledger \<Rightarrow> error + report_row" where
  "report_row_of ar current_holdings tk grp =
     (let buys = filter (\<lambda>t. Transaction_Type t = Buy) grp;
          buy_cost = (if buys \<noteq> [] then f_sum ar (map Total buys) else 0);
          sells = filter (\<lambda>t. Transaction_Type t = Sell) grp;
          sell_revenue = (if sells \<noteq> [] then f_sum ar (map (\<lambda>t. \<bar>Total t\<bar>) sells) else 0);
          total_bought_shares =
            (if buys \<noteq> [] then int64 (sum_list (map Quantity buys)) else 0);
          total_sold_shares =
            (if sells \<noteq> [] then int64 (sum_list (map Quantity sells)) else 0)
      in
      ebind (if 0 < total_bought_shares
             then divide_by_int ar buy_cost total_bought_shares
             else Inr 0) (\<lambda>avg_cost_per_share.
        let cost_basis_sold =
              (if 0 < avg_cost_per_share \<and> 0 < total_sold_shares
               then fmul ar avg_cost_per_share (f_of_int ar total_sold_shares) else 0);
            realized = fsub ar sell_revenue cost_basis_sold
        in
      ebind (unrealized_lookup tk current_holdings) (\<lambda>unrealized.
        Inr \<lparr>rTicker = tk, Buy_Cost = buy_cost, Sell_Revenue = sell_revenue,
             Realized_Profit_Loss = realized, Unrealized_Profit_Loss = unrealized,
             Total_Profit_Loss = fadd ar realized unrealized\<rparr>)))"

fun report_loop ::
    "arith \<Rightarrow> holdings_frame \<Rightarrow> (string \<times> ledger) list \<Rightarrow> error + report_row list" where
  "report_loop ar current_holdings [] = Inr []"
| "report_loop ar current_holdings ((tk, grp) # rest) =
     ebind (report_row_of ar current_holdings tk grp) (\<lambda>row.
     ebind (report_loop ar current_holdings rest) (\<lambda>rows. Inr (row # rows)))"

definition report_data :: "arith \<Rightarrow> ledger \<Rightarrow> error + report_row list" where
  "report_data ar df =
     ebind (get_current_holdings ar df) (\<lambda>current_holdings.
       report_loop ar current_holdings (groupby_Ticker df))"

text \<open>
  Lines 222--227: the rows are sorted by Total Profit/Loss, largest first, then every
  money column is rounded. As for the dates, where rows with equal totals end up is
  not fixed, and the sort is an argument \<open>srt\<close>.
\<close>

definition sorts_by_Total_descending :: "(report_row list \<Rightarrow> report_row list) \<Rightarrow> bool" where
  "sorts_by_Total_descending srt \<longleftrightarrow>
     (\<forall>rows. mset (srt rows) = mset rows \<and> sorted (rev (map Total_Profit_Loss (srt rows))))"

definition format_report_row :: "arith \<Rightarrow> report_row \<Rightarrow> report_row" where
  "format_report_row ar r =
     r\<lparr>Buy_Cost := round2 ar (Buy_Cost r), Sell_Revenue := round2 ar (Sell_Revenue r),
       Realized_Profit_Loss := round2 ar (Realized_Profit_Loss r),
       Unrealized_Profit_Loss := round2 ar (Unrealized_Profit_Loss r),
       Total_Profit_Loss := round2 ar (Total_Profit_Loss r)\<rparr>"

definition format_report ::
    "arith \<Rightarrow> (report_row list \<Rightarrow> report_row list) \<Rightarrow> report_row list \<Rightarrow> report_row list" where
  "format_report ar srt rows =
     (if rows \<noteq> [] then map (format_report_row ar) (srt rows) else rows)"

definition generate_profit_loss_report ::
    "arith \<Rightarrow> (report_row list \<Rightarrow> report_row list) \<Rightarrow> ledger \<Rightarrow> error + report_row list" where
  "generate_profit_loss_report ar srt df =
     (if df = [] then Inr []
      else ebind (report_data ar df) (\<lambda>rows. Inr (format_report ar srt rows)))"

section \<open>Transaction validation (\<^verbatim>\<open>validate_transaction\<close>)\<close>

text \<open>\<^verbatim>\<open>str\<close> of an integer, as the f-strings of the messages print it.\<close>

fun str_nat :: "nat \<Rightarrow> string" where
  "str_nat n =
     (if n < 10 then [char_of (48 + n)] else str_nat (n div 10) @ [char_of (48 + n mod 10)])"

declare str_nat.simps [simp del]

definition str_int :: "int \<Rightarrow> string" where
  "str_int i = (if i < 0 then CHR ''-'' # str_nat (nat (- i)) else str_nat (nat i))"

text \<open>
  The proposed transaction is a dictionary with the ledger's keys; the function reads
  \<^verbatim>\<open>Ticker\<close>, \<^verbatim>\<open>Quantity\<close> and \<^verbatim>\<open>Transaction Type\<close>. The result is the pair
  \<^verbatim>\<open>(is_valid, error_message)\<close>.
\<close>

definition validate_transaction :: "transaction \<Rightarrow> holdings_frame \<Rightarrow> error + (bool \<times> string)" where
  "validate_transaction tr current_holdings =
     (let tk = Ticker tr; qty = Quantity tr; transaction_type = Transaction_Type tr in
      if tk = [] then Inr (False, ''Ticker symbol is required.'')
      else if qty \<le> 0 then Inr (False, ''Quantity must be greater than zero.'')
      else if transaction_type = Sell then
        ebind (column hTicker current_holdings) (\<lambda>tickers.
          if tk \<notin> set tickers
          then Inr (False, ''Cannot sell '' @ tk
                      @ ''. You don't own any shares of this stock.'')
          else
        ebind (values0 (map Shares (filter (\<lambda>h. hTicker h = tk) (frame_rows current_holdings))))
          (\<lambda>owned_quantity.
          if owned_quantity < qty
          then Inr (False, ''Cannot sell '' @ str_int qty @ '' shares of '' @ tk
                      @ ''. You only own '' @ str_int owned_quantity @ '' shares.'')
          else Inr (True, [])))
      else Inr (True, []))"

section \<open>Quantities the properties are stated with\<close>

text \<open>
  The Buy rows and the Sell rows of a ticker, and its net shares as an integer: the
  sum of the Buy quantities minus the sum of the Sell quantities.
\<close>

definition buy_rows :: "string \<Rightarrow> ledger \<Rightarrow> ledger" where
  "buy_rows k df = filter (\<lambda>t. Ticker t = k \<and> Transaction_Type t = Buy) df"

definition sell_rows :: "string \<Rightarrow> ledger \<Rightarrow> ledger" where
  "sell_rows k df = filter (\<lambda>t. Ticker t = k \<and> Transaction_Type t = Sell) df"

definition net_shares :: "string \<Rightarrow> ledger \<Rightarrow> int" where
  "net_shares k df =
     sum_list (map Quantity (buy_rows k df)) - sum_list (map Quantity (sell_rows k df))"

text \<open>
  The same sums as int64 arithmetic delivers them. They are the integer sums whenever
  those lie between \<open>- 2 ^ 63\<close> and \<open>2 ^ 63 - 1\<close>.
\<close>

definition held_shares :: "string \<Rightarrow> ledger \<Rightarrow> int" where
  "held_shares k df = int64 (net_shares k df)"

definition bought_shares :: "string \<Rightarrow> ledger \<Rightarrow> int" where
  "bought_shares k df = int64 (sum_list (map Quantity (buy_rows k df)))"

definition sold_shares :: "string \<Rightarrow> ledger \<Rightarrow> int" where
  "sold_shares k df = int64 (sum_list (map Quantity (sell_rows k df)))"

text \<open>
  Per ticker, at full precision: the average cost of a share bought (0 when the bought
  quantity is not positive, in particular without Buy rows), the cost, value, profit and
  return of the position held, with the price of the ticker's last row in the ledger's
  order as the current price.
\<close>

definition average_cost :: "arith \<Rightarrow> string \<Rightarrow> ledger \<Rightarrow> rat" where
  "average_cost ar k df =
     (if 0 < bought_shares k df
      then fdiv ar (f_sum ar (map Total (buy_rows k df))) (f_of_int ar (bought_shares k df))
      else 0)"

definition position_cost :: "arith \<Rightarrow> string \<Rightarrow> ledger \<Rightarrow> rat" where
  "position_cost ar k df = fmul ar (average_cost ar k df) (f_of_int ar (held_shares k df))"

definition last_price :: "string \<Rightarrow> ledger \<Rightarrow> rat" where
  "last_price k df = Price (last (filter (\<lambda>t. Ticker t = k) df))"

definition position_value :: "arith \<Rightarrow> string \<Rightarrow> ledger \<Rightarrow> rat" where
  "position_value ar k df = fmul ar (f_of_int ar (held_shares k df)) (last_price k df)"

definition position_profit :: "arith \<Rightarrow> string \<Rightarrow> ledger \<Rightarrow> rat" where
  "position_profit ar k df = fsub ar (position_value ar k df) (position_cost ar k df)"

definition position_return :: "arith \<Rightarrow> string \<Rightarrow> ledger \<Rightarrow> rat" where
  "position_return ar k df =
     (if 0 < position_cost ar k df
      then fmul ar (fdiv ar (position_profit ar k df) (position_cost ar k df)) 100
      else 0)"

text \<open>
  Per ticker, for the report: what the buys cost, what the sells brought in, the cost
  basis of the shares sold (counted only when the average cost and the sold quantity
  are both positive) and the realized profit.
\<close>

definition buy_cost :: "arith \<Rightarrow> string \<Rightarrow> ledger \<Rightarrow> rat" where
  "buy_cost ar k df = (if buy_rows k df = [] then 0 else f_sum ar (map Total (buy_rows k df)))"

definition sell_revenue :: "arith \<Rightarrow> string \<Rightarrow> ledger \<Rightarrow> rat" where
  "sell_revenue ar k df =
     (if sell_rows k df = [] then 0 else f_sum ar (map (\<lambda>t. \<bar>Total t\<bar>) (sell_rows k df)))"

definition cost_basis_sold :: "arith \<Rightarrow> string \<Rightarrow> ledger \<Rightarrow> rat" where
  "cost_basis_sold ar k df =
     (if 0 < average_cost ar k df \<and> 0 < sold_shares k df
      then fmul ar (average_cost ar k df) (f_of_int ar (sold_shares k df)) else 0)"

definition realized_profit :: "arith \<Rightarrow> string \<Rightarrow> ledger \<Rightarrow> rat" where
  "realized_profit ar k df = fsub ar (sell_revenue ar k df) (cost_basis_sold ar k df)"

section \<open>The results without the error plumbing\<close>

text \<open>
  The tickers that get a holdings row, in the order of the groups, the row of one ticker
  before formatting, and the rows of the returned frame: \<open>holdings_list\<close> and
  \<open>get_current_holdings\<close> return exactly these (lemmas \<open>holdings_list_Inr\<close> and
  \<open>get_current_holdings_frame_rows\<close>).
\<close>

definition held_tickers :: "ledger \<Rightarrow> string list" where
  "held_tickers df = filter (\<lambda>k. 0 < held_shares k df) (sort (remdups (map Ticker df)))"

definition raw_row :: "arith \<Rightarrow> ledger \<Rightarrow> string \<Rightarrow> holding" where
  "raw_row ar df k =
     \<lparr>hTicker = k, Shares = held_shares k df, Average_Cost = average_cost ar k df,
      Total_Cost = position_cost ar k df, Current_Value = position_value ar k df,
      Profit_Loss = position_profit ar k df, Return_Pct = position_return ar k df\<rparr>"

definition holdings_rows :: "arith \<Rightarrow> ledger \<Rightarrow> holding list" where
  "holdings_rows ar df = map (format_holding ar) (map (raw_row ar df) (held_tickers df))"

text \<open>The same for one group of the loop, whatever its key and its share count.\<close>

definition avg_cost_of :: "arith \<Rightarrow> ledger \<Rightarrow> rat" where
  "avg_cost_of ar grp =
     (let buys = filter (\<lambda>t. Transaction_Type t = Buy) grp;
          bought = int64 (sum_list (map Quantity buys))
      in if 0 < bought then fdiv ar (f_sum ar (map Total buys)) (f_of_int ar bought) else 0)"

definition row_of :: "arith \<Rightarrow> string \<Rightarrow> ledger \<Rightarrow> int \<Rightarrow> holding" where
  "row_of ar tk grp shares =
     (let cost = fmul ar (avg_cost_of ar grp) (f_of_int ar shares);
          val = fmul ar (f_of_int ar shares) (Price (last grp))
      in \<lparr>hTicker = tk, Shares = shares, Average_Cost = avg_cost_of ar grp,
           Total_Cost = cost, Current_Value = val, Profit_Loss = fsub ar val cost,
           Return_Pct = (if 0 < cost then fmul ar (fdiv ar (fsub ar val cost) cost) 100 else 0)\<rparr>)"

text \<open>
  The report row of one ticker before sorting and rounding; the unrealized profit is
  read from the returned holdings frame, where it is already rounded.
\<close>

definition unrealized_of :: "string \<Rightarrow> holding list \<Rightarrow> rat" where
  "unrealized_of tk rows =
     (case filter (\<lambda>h. hTicker h = tk) rows of [] \<Rightarrow> 0 | h # _ \<Rightarrow> Profit_Loss h)"

definition report_value :: "arith \<Rightarrow> ledger \<Rightarrow> string \<Rightarrow> report_row" where
  "report_value ar df k =
     \<lparr>rTicker = k, Buy_Cost = buy_cost ar k df, Sell_Revenue = sell_revenue ar k df,
      Realized_Profit_Loss = realized_profit ar k df,
      Unrealized_Profit_Loss = unrealized_of k (holdings_rows ar df),
      Total_Profit_Loss =
        fadd ar (realized_profit ar k df) (unrealized_of k (holdings_rows ar df))\<rparr>"

section \<open>Example ledgers, proposals and auxiliary definitions\<close>

text \<open>
  Ten shares bought at 150, three of them sold at 155 a day later.
\<close>

definition ledger_example :: ledger where
  "ledger_example =
     [\<lparr>Date = 1, Ticker = ''AAPL'', Transaction_Type = Buy, Price = 150, Quantity = 10,
       Total = 1500\<rparr>,
      \<lparr>Date = 2, Ticker = ''AAPL'', Transaction_Type = Sell, Price = 155, Quantity = 3,
       Total = - 465\<rparr>]"

text \<open>
  Two tickers, each: one share bought at 3.00, two at 3.50, one sold at 4.00. The
  average cost is 10/3 and the cost of the two shares left is 20/3.
\<close>

definition ledger_thirds :: ledger where
  "ledger_thirds =
     [\<lparr>Date = 1, Ticker = ''AAA'', Transaction_Type = Buy, Price = 3, Quantity = 1, Total = 3\<rparr>,
      \<lparr>Date = 1, Ticker = ''BBB'', Transaction_Type = Buy, Price = 3, Quantity = 1, Total = 3\<rparr>,
      \<lparr>Date = 2, Ticker = ''AAA'', Transaction_Type = Buy, Price = 7 / 2, Quantity = 2, Total = 7\<rparr>,
      \<lparr>Date = 2, Ticker = ''BBB'', Transaction_Type = Buy, Price = 7 / 2, Quantity = 2, Total = 7\<rparr>,
      \<lparr>Date = 3, Ticker = ''AAA'', Transaction_Type = Sell, Price = 4, Quantity = 1, Total = - 4\<rparr>,
      \<lparr>Date = 3, Ticker = ''BBB'', Transaction_Type = Sell, Price = 4, Quantity = 1, Total = - 4\<rparr>]"

text \<open>
  Two purchases of \<open>2 ^ 62\<close> shares of one ticker: the net shares are \<open>2 ^ 63\<close>, one
  more than the largest int64.
\<close>

definition ledger_overflow :: ledger where
  "ledger_overflow =
     [\<lparr>Date = 1, Ticker = ''BIG'', Transaction_Type = Buy, Price = 1,
       Quantity = 4611686018427387904, Total = 4611686018427387904\<rparr>,
      \<lparr>Date = 2, Ticker = ''BIG'', Transaction_Type = Buy, Price = 1,
       Quantity = 4611686018427387904, Total = 4611686018427387904\<rparr>]"

text \<open>
  One purchase recorded with a negative total: two shares, price 1, total -6.
\<close>

definition ledger_negative_total :: ledger where
  "ledger_negative_total =
     [\<lparr>Date = 1, Ticker = ''XYZ'', Transaction_Type = Buy, Price = 1, Quantity = 2,
       Total = - 6\<rparr>]"

text \<open>
  A position opened on day 1 and closed on day 2 at a profit; a ledger whose rows are
  not in date order, the older purchase having been entered last; and three sales of
  \<open>2 ^ 62\<close> shares with no purchase at all, on three days.
\<close>

definition ledger_exited :: ledger where
  "ledger_exited =
     [\<lparr>Date = 1, Ticker = ''AAPL'', Transaction_Type = Buy, Price = 150, Quantity = 10,
       Total = 1500\<rparr>,
      \<lparr>Date = 2, Ticker = ''AAPL'', Transaction_Type = Sell, Price = 160, Quantity = 10,
       Total = - 1600\<rparr>]"

definition ledger_unordered :: ledger where
  "ledger_unordered =
     [\<lparr>Date = 2, Ticker = ''AAPL'', Transaction_Type = Buy, Price = 150, Quantity = 10,
       Total = 1500\<rparr>,
      \<lparr>Date = 1, Ticker = ''AAPL'', Transaction_Type = Buy, Price = 100, Quantity = 5,
       Total = 500\<rparr>]"

definition ledger_oversold :: ledger where
  "ledger_oversold =
     [\<lparr>Date = 1, Ticker = ''BIG'', Transaction_Type = Sell, Price = 1,
       Quantity = 4611686018427387904, Total = - 4611686018427387904\<rparr>,
      \<lparr>Date = 2, Ticker = ''BIG'', Transaction_Type = Sell, Price = 1,
       Quantity = 4611686018427387904, Total = - 4611686018427387904\<rparr>,
      \<lparr>Date = 3, Ticker = ''BIG'', Transaction_Type = Sell, Price = 1,
       Quantity = 4611686018427387904, Total = - 4611686018427387904\<rparr>]"

text \<open>
  One share bought at a price of -2 and sold at 3: the net shares are 0 and the average
  buy cost is negative.
\<close>

definition ledger_negative_buy :: ledger where
  "ledger_negative_buy =
     [\<lparr>Date = 1, Ticker = ''XYZ'', Transaction_Type = Buy, Price = - 2, Quantity = 1,
       Total = - 2\<rparr>,
      \<lparr>Date = 2, Ticker = ''XYZ'', Transaction_Type = Sell, Price = 3, Quantity = 1,
       Total = - 3\<rparr>]"

text \<open>
  Realized profit as the specification words it: sell revenue minus average buy cost
  times sold shares, in exact arithmetic.
\<close>

definition realized_as_stated :: "string \<Rightarrow> ledger \<Rightarrow> rat" where
  "realized_as_stated k df =
     sum_list (map (\<lambda>t. \<bar>Total t\<bar>) (sell_rows k df))
       - sum_list (map Total (buy_rows k df))
           / of_int (sum_list (map Quantity (buy_rows k df)))
           * of_int (sum_list (map Quantity (sell_rows k df)))"

text \<open>
  A sort of the report rows by Total Profit/Loss, largest first, to compute examples
  with.
\<close>

definition sort_Total_descending :: "report_row list \<Rightarrow> report_row list" where
  "sort_Total_descending rows = rev (sort_key Total_Profit_Loss rows)"

text \<open>
  Proposed transactions: a sale of a ticker that is not held, a purchase at price 0 and
  one at a negative price, and a sale of ten shares.
\<close>

definition sell_untracked :: transaction where
  "sell_untracked =
     \<lparr>Date = 3, Ticker = ''MSFT'', Transaction_Type = Sell, Price = 280, Quantity = 1,
      Total = - 280\<rparr>"

definition buy_at_zero :: transaction where
  "buy_at_zero =
     \<lparr>Date = 3, Ticker = ''AAPL'', Transaction_Type = Buy, Price = 0, Quantity = 1,
      Total = 0\<rparr>"

definition buy_at_negative :: transaction where
  "buy_at_negative =
     \<lparr>Date = 3, Ticker = ''AAPL'', Transaction_Type = Buy, Price = - 5, Quantity = 1,
      Total = - 5\<rparr>"

definition sell_ten :: transaction where
  "sell_ten =
     \<lparr>Date = 3, Ticker = ''AAPL'', Transaction_Type = Sell, Price = 155, Quantity = 10,
      Total = - 1550\<rparr>"

section \<open>Basic facts\<close>

lemma ebind_Inr [simp]: "ebind (Inr v) f = f v"
  by (simp add: ebind_def)

lemma ebind_Inl [simp]: "ebind (Inl e) f = Inl e"
  by (simp add: ebind_def)

subsection \<open>int64 sums\<close>

lemma int64_zero [simp]: "int64 0 = 0"
  by (simp add: int64_def)

lemma int64_add_left: "int64 (int64 a + b) = int64 (a + b)"
proof -
  have "(int64 a + b + 2 ^ 63) mod 2 ^ 64 = ((a + 2 ^ 63) mod 2 ^ 64 + b) mod 2 ^ 64"
    by (simp add: int64_def)
  also have "\<dots> = (a + 2 ^ 63 + b) mod 2 ^ 64"
    by (rule mod_add_left_eq)
  also have "\<dots> = (a + b + 2 ^ 63) mod 2 ^ 64"
    by (simp only: add.assoc add.commute [of "2 ^ 63" b])
  finally show ?thesis
    by (simp add: int64_def)
qed

lemma int64_add_right: "int64 (a + int64 b) = int64 (a + b)"
  using int64_add_left [of b a] by (simp add: add.commute)

lemma int64_in_range: "- (2 ^ 63) \<le> n \<Longrightarrow> n < 2 ^ 63 \<Longrightarrow> int64 n = n"
  by (simp add: int64_def)

lemma sum_Quantity_negate_sells:
  "int64 (sum_list (map Quantity (negate_sells g))) =
     int64 (sum_list (map Quantity (filter (\<lambda>t. Transaction_Type t = Buy) g))
            - sum_list (map Quantity (filter (\<lambda>t. Transaction_Type t = Sell) g)))"
proof (induction g)
  case Nil
  then show ?case by (simp add: negate_sells_def)
next
  case (Cons t g)
  let ?S = "sum_list (map Quantity (negate_sells g))"
  let ?N = "sum_list (map Quantity (filter (\<lambda>t. Transaction_Type t = Buy) g))
            - sum_list (map Quantity (filter (\<lambda>t. Transaction_Type t = Sell) g))"
  show ?case
  proof (cases "Transaction_Type t")
    case Buy
    have "int64 (Quantity t + ?S) = int64 (Quantity t + int64 ?S)"
      by (rule int64_add_right [symmetric])
    also have "\<dots> = int64 (Quantity t + int64 ?N)"
      by (simp only: Cons.IH)
    also have "\<dots> = int64 (Quantity t + ?N)"
      by (rule int64_add_right)
    finally show ?thesis
      using Buy by (simp add: negate_sells_def algebra_simps)
  next
    case Sell
    have "int64 (int64 (- Quantity t) + ?S) = int64 (- Quantity t + ?S)"
      by (rule int64_add_left)
    also have "\<dots> = int64 (- Quantity t + int64 ?S)"
      by (rule int64_add_right [symmetric])
    also have "\<dots> = int64 (- Quantity t + int64 ?N)"
      by (simp only: Cons.IH)
    also have "\<dots> = int64 (- Quantity t + ?N)"
      by (rule int64_add_right)
    finally show ?thesis
      using Sell by (simp add: negate_sells_def algebra_simps)
  qed
qed

subsection \<open>The holdings loop\<close>

lemma fmul_zero [simp]: "fmul ar 0 y = 0" "fmul ar x 0 = 0"
  by (simp_all add: fmul_def)

lemma round2_zero [simp]: "round2 ar 0 = 0"
  by (simp add: round2_def)

lemma fsub_zero [simp]: "fsub ar x 0 = x"
  by (simp add: fsub_def)

lemma holding_row_Inr:
  assumes "grp \<noteq> []"
  shows "holding_row ar tk grp shares = Inr (row_of ar tk grp shares)"
proof (cases "0 < int64 (sum_list (map Quantity (filter (\<lambda>t. Transaction_Type t = Buy) grp)))")
  case True
  then have ne: "filter (\<lambda>t. Transaction_Type t = Buy) grp \<noteq> []"
    by auto
  show ?thesis
    using assms True ne
    by (simp add: holding_row_def row_of_def avg_cost_of_def divide_checked_def
        divide_by_int_def iloc_last_def Let_def)
next
  case False
  then show ?thesis
    using assms
    by (simp add: holding_row_def row_of_def avg_cost_of_def divide_checked_def
        divide_by_int_def iloc_last_def Let_def)
qed

lemma holdings_loop_Inr:
  assumes "\<forall>kg \<in> set gs. snd kg \<noteq> []"
  shows "holdings_loop ar gs =
     Inr (map (\<lambda>kg. row_of ar (fst kg) (snd kg) (int64 (sum_list (map Quantity (snd kg)))))
            (filter (\<lambda>kg. 0 < int64 (sum_list (map Quantity (snd kg)))) gs))"
  using assms
proof (induction gs)
  case Nil
  then show ?case by simp
next
  case (Cons kg gs)
  obtain k g where kg: "kg = (k, g)" by (cases kg)
  from Cons.prems kg have "g \<noteq> []" by simp
  moreover from Cons have "holdings_loop ar gs =
     Inr (map (\<lambda>kg. row_of ar (fst kg) (snd kg) (int64 (sum_list (map Quantity (snd kg)))))
            (filter (\<lambda>kg. 0 < int64 (sum_list (map Quantity (snd kg)))) gs))" by simp
  ultimately show ?case
    by (simp add: kg Let_def holding_row_Inr)
qed

lemma Ticker_negate_sells [simp]: "map Ticker (negate_sells df) = map Ticker df"
  by (induction df) (simp_all add: negate_sells_def)

lemma negate_sells_Nil_iff [simp]: "negate_sells df = [] \<longleftrightarrow> df = []"
  by (simp add: negate_sells_def)

lemma filter_Ticker_negate_sells:
  "filter (\<lambda>t. Ticker t = k) (negate_sells df) = negate_sells (filter (\<lambda>t. Ticker t = k) df)"
  by (induction df) (simp_all add: negate_sells_def)

lemma filter_Buy_negate_sells [simp]:
  "filter (\<lambda>t. Transaction_Type t = Buy) (negate_sells g) = filter (\<lambda>t. Transaction_Type t = Buy) g"
  by (induction g) (simp_all add: negate_sells_def)

lemma Price_last_negate_sells [simp]:
  "g \<noteq> [] \<Longrightarrow> Price (last (negate_sells g)) = Price (last g)"
  by (simp add: negate_sells_def last_map)

lemma avg_cost_of_negate_sells [simp]: "avg_cost_of ar (negate_sells g) = avg_cost_of ar g"
  by (simp add: avg_cost_of_def)

lemma row_of_negate_sells:
  "g \<noteq> [] \<Longrightarrow> row_of ar k (negate_sells g) s = row_of ar k g s"
  by (simp add: row_of_def)

lemma filter_filter_Ticker:
  "filter (\<lambda>t. Transaction_Type t = ty) (filter (\<lambda>t. Ticker t = k) df) =
   filter (\<lambda>t. Ticker t = k \<and> Transaction_Type t = ty) df"
  by (induction df) simp_all

lemma held_shares_group:
  "int64 (sum_list (map Quantity (negate_sells (filter (\<lambda>t. Ticker t = k) df)))) =
     held_shares k df"
  by (simp add: sum_Quantity_negate_sells filter_filter_Ticker held_shares_def
      net_shares_def buy_rows_def sell_rows_def)

lemma net_shares_absent: "k \<notin> Ticker ` set df \<Longrightarrow> net_shares k df = 0"
proof -
  assume "k \<notin> Ticker ` set df"
  then have "\<And>ty. filter (\<lambda>t. Ticker t = k \<and> Transaction_Type t = ty) df = []"
    by (auto simp: filter_empty_conv)
  then show ?thesis
    by (simp add: net_shares_def buy_rows_def sell_rows_def)
qed

lemma avg_cost_of_group:
  "avg_cost_of ar (filter (\<lambda>t. Ticker t = k) df) = average_cost ar k df"
  by (simp add: avg_cost_of_def average_cost_def bought_shares_def buy_rows_def
      filter_filter_Ticker Let_def)

lemma row_of_group:
  "row_of ar k (filter (\<lambda>t. Ticker t = k) df) (held_shares k df) = raw_row ar df k"
  by (simp add: row_of_def raw_row_def avg_cost_of_group position_cost_def
      position_value_def position_profit_def position_return_def last_price_def Let_def)

lemma groupby_nonempty: "\<forall>kg \<in> set (groupby_Ticker df). snd kg \<noteq> []"
  by (auto simp: groupby_Ticker_def filter_empty_conv)

lemma holdings_list_Inr: "holdings_list ar df = Inr (map (raw_row ar df) (held_tickers df))"
proof -
  have ne: "\<And>k. k \<in> set (held_tickers df) \<Longrightarrow> filter (\<lambda>t. Ticker t = k) df \<noteq> []"
    by (auto simp: held_tickers_def filter_empty_conv)
  have "holdings_list ar df =
      Inr (map (\<lambda>k. row_of ar k (negate_sells (filter (\<lambda>t. Ticker t = k) df)) (held_shares k df))
             (held_tickers df))"
    unfolding holdings_list_def
    by (subst holdings_loop_Inr [OF groupby_nonempty])
      (simp add: groupby_Ticker_def filter_map comp_def filter_Ticker_negate_sells
        held_shares_group held_tickers_def)
  also have "map (\<lambda>k. row_of ar k (negate_sells (filter (\<lambda>t. Ticker t = k) df)) (held_shares k df))
             (held_tickers df) = map (raw_row ar df) (held_tickers df)"
    by (rule map_cong) (simp_all add: row_of_negate_sells row_of_group ne)
  finally show ?thesis .
qed

lemma set_held_tickers: "set (held_tickers df) = {k. 0 < held_shares k df}"
proof -
  have "\<And>k. 0 < held_shares k df \<Longrightarrow> k \<in> Ticker ` set df"
    using net_shares_absent by (fastforce simp: held_shares_def)
  then show ?thesis
    by (auto simp: held_tickers_def)
qed

lemma distinct_held_tickers: "distinct (held_tickers df)"
  by (simp add: held_tickers_def)

lemma held_tickers_Nil [simp]: "held_tickers [] = []"
  by (simp add: held_tickers_def)

lemma format_holding_sel [simp]:
  "hTicker (format_holding ar h) = hTicker h"
  "Shares (format_holding ar h) = Shares h"
  "Average_Cost (format_holding ar h) = round2 ar (Average_Cost h)"
  "Total_Cost (format_holding ar h) = round2 ar (Total_Cost h)"
  "Current_Value (format_holding ar h) = round2 ar (Current_Value h)"
  "Profit_Loss (format_holding ar h) = round2 ar (Profit_Loss h)"
  "Return_Pct (format_holding ar h) = round2 ar (Return_Pct h)"
  by (simp_all add: format_holding_def)

lemma raw_row_sel [simp]:
  "hTicker (raw_row ar df k) = k"
  "Shares (raw_row ar df k) = held_shares k df"
  "Average_Cost (raw_row ar df k) = average_cost ar k df"
  "Total_Cost (raw_row ar df k) = position_cost ar k df"
  "Current_Value (raw_row ar df k) = position_value ar k df"
  "Profit_Loss (raw_row ar df k) = position_profit ar k df"
  "Return_Pct (raw_row ar df k) = position_return ar k df"
  by (simp_all add: raw_row_def)

lemma frame_rows_format_data_frame [simp]:
  "frame_rows (format_holdings ar (data_frame rows)) = map (format_holding ar) rows"
  by (simp add: format_holdings_def data_frame_def)

lemma get_current_holdings_Inr:
  "get_current_holdings ar df =
     Inr (if df = [] then Frame []
          else format_holdings ar (data_frame (map (raw_row ar df) (held_tickers df))))"
  by (simp add: get_current_holdings_def holdings_list_Inr)

lemma get_current_holdings_frame_rows:
  "\<exists>fr. get_current_holdings ar df = Inr fr \<and> frame_rows fr = holdings_rows ar df"
  by (simp add: get_current_holdings_Inr holdings_rows_def)

lemma holdings_rows_tickers: "map hTicker (holdings_rows ar df) = held_tickers df"
  by (simp add: holdings_rows_def comp_def)

lemma holdings_rows_member:
  "h \<in> set (holdings_rows ar df) \<longleftrightarrow>
     (\<exists>k. 0 < held_shares k df \<and> h = format_holding ar (raw_row ar df k))"
  by (auto simp: holdings_rows_def set_held_tickers)

section \<open>Holdings: which tickers appear, and with how many shares\<close>

text \<open>
  Claim C1, as stated, fails where the int64 sum overflows: on \<open>ledger_overflow\<close> the
  net shares of BIG are positive, the sum wraps to \<open>- 2 ^ 63\<close>, the group is skipped and
  the output has no row.
\<close>

lemma overflow_held_shares:
  "held_shares k ledger_overflow = (if k = ''BIG'' then - (2 ^ 63) else 0)"
  by (simp add: held_shares_def net_shares_def buy_rows_def sell_rows_def
      ledger_overflow_def int64_def)

lemma overflow_holdings: "get_current_holdings ar ledger_overflow = Inr NoColumns"
proof -
  have "set (held_tickers ledger_overflow) = {}"
    by (simp add: set_held_tickers overflow_held_shares)
  then have "held_tickers ledger_overflow = []"
    by simp
  moreover have "ledger_overflow \<noteq> []"
    by (simp add: ledger_overflow_def)
  ultimately show ?thesis
    by (simp add: get_current_holdings_Inr format_holdings_def data_frame_def)
qed

theorem holdings_overflow_counterexample:
  "0 < net_shares ''BIG'' ledger_overflow \<and>
   (\<forall>ar. get_current_holdings ar ledger_overflow = Inr NoColumns) \<and>
   frame_rows NoColumns = []"
  by (simp add: overflow_holdings)
    (simp add: net_shares_def buy_rows_def sell_rows_def ledger_overflow_def)

text \<open>
  Claim C1, amended. The Holdings Calculator never fails, and for every ledger a ticker
  has a row in its output if and only if its net shares as int64 arithmetic delivers
  them (\<open>held_shares\<close>) are strictly positive; the row's Shares field is that number, and
  no ticker has two rows. When every ticker's net shares lie in the int64 range, this is
  the claim as it was stated: a row if and only if the sum of the Buy quantities minus
  the sum of the Sell quantities is positive, with Shares equal to it.
\<close>

theorem holdings_iff_positive_net:
  "\<exists>fr. get_current_holdings ar df = Inr fr \<and>
     (\<forall>k. (\<exists>h \<in> set (frame_rows fr). hTicker h = k) \<longleftrightarrow> 0 < held_shares k df) \<and>
     (\<forall>h \<in> set (frame_rows fr). Shares h = held_shares (hTicker h) df) \<and>
     distinct (map hTicker (frame_rows fr)) \<and>
     ((\<forall>k. - (2 ^ 63) \<le> net_shares k df \<and> net_shares k df < 2 ^ 63) \<longrightarrow>
        (\<forall>k. (\<exists>h \<in> set (frame_rows fr). hTicker h = k) \<longleftrightarrow> 0 < net_shares k df) \<and>
        (\<forall>h \<in> set (frame_rows fr). Shares h = net_shares (hTicker h) df))"
proof -
  obtain fr where fr: "get_current_holdings ar df = Inr fr"
    and rows: "frame_rows fr = holdings_rows ar df"
    using get_current_holdings_frame_rows by blast
  have tickers: "map hTicker (frame_rows fr) = held_tickers df"
    by (simp add: rows holdings_rows_tickers)
  have "\<And>k. (\<exists>h \<in> set (frame_rows fr). hTicker h = k) \<longleftrightarrow> k \<in> set (map hTicker (frame_rows fr))"
    by auto
  then have a: "\<forall>k. (\<exists>h \<in> set (frame_rows fr). hTicker h = k) \<longleftrightarrow> 0 < held_shares k df"
    by (simp only: tickers set_held_tickers) simp
  have b: "\<forall>h \<in> set (frame_rows fr). Shares h = held_shares (hTicker h) df"
    by (auto simp: rows holdings_rows_def)
  have c: "distinct (map hTicker (frame_rows fr))"
    by (simp only: tickers distinct_held_tickers)
  have d: "(\<forall>k. (\<exists>h \<in> set (frame_rows fr). hTicker h = k) \<longleftrightarrow> 0 < net_shares k df) \<and>
        (\<forall>h \<in> set (frame_rows fr). Shares h = net_shares (hTicker h) df)"
    if "\<forall>k. - (2 ^ 63) \<le> net_shares k df \<and> net_shares k df < 2 ^ 63"
  proof -
    from that have "\<And>k. held_shares k df = net_shares k df"
      by (simp add: held_shares_def int64_in_range)
    with a b show ?thesis by simp
  qed
  from fr a b c d show ?thesis by blast
qed

text \<open>On the example ledger the net shares of every ticker are in range: AAPL has a row, with 7 shares.\<close>

lemma example_net_shares:
  "net_shares k ledger_example = (if k = ''AAPL'' then 7 else 0)"
  by (simp add: net_shares_def buy_rows_def sell_rows_def ledger_example_def)

theorem holdings_iff_positive_net_witness:
  "\<exists>fr h. get_current_holdings exact_arith ledger_example = Inr fr \<and>
     h \<in> set (frame_rows fr) \<and> hTicker h = ''AAPL'' \<and> Shares h = 7"
proof -
  have range: "\<forall>k. - (2 ^ 63) \<le> net_shares k ledger_example \<and> net_shares k ledger_example < 2 ^ 63"
    by (simp add: example_net_shares)
  obtain fr where fr: "get_current_holdings exact_arith ledger_example = Inr fr"
    and imp: "(\<forall>k. - (2 ^ 63) \<le> net_shares k ledger_example \<and> net_shares k ledger_example < 2 ^ 63) \<longrightarrow>
        (\<forall>k. (\<exists>h \<in> set (frame_rows fr). hTicker h = k) \<longleftrightarrow> 0 < net_shares k ledger_example) \<and>
        (\<forall>h \<in> set (frame_rows fr). Shares h = net_shares (hTicker h) ledger_example)"
    using holdings_iff_positive_net [of exact_arith ledger_example] by blast
  from imp range
  have iff: "\<forall>k. (\<exists>h \<in> set (frame_rows fr). hTicker h = k) \<longleftrightarrow> 0 < net_shares k ledger_example"
    and sh: "\<forall>h \<in> set (frame_rows fr). Shares h = net_shares (hTicker h) ledger_example"
    by blast+
  have "0 < net_shares ''AAPL'' ledger_example"
    by (simp add: example_net_shares)
  with iff obtain h where h: "h \<in> set (frame_rows fr)" "hTicker h = ''AAPL''"
    by blast
  with sh have "Shares h = 7"
    by (simp add: example_net_shares)
  with fr h show ?thesis by blast
qed

section \<open>Facts about the returned holdings and the summary\<close>

lemma holdings_rows_values:
  assumes "h \<in> set (holdings_rows ar df)"
  shows "0 < held_shares (hTicker h) df"
    and "Shares h = held_shares (hTicker h) df"
    and "Average_Cost h = round2 ar (average_cost ar (hTicker h) df)"
    and "Total_Cost h = round2 ar (position_cost ar (hTicker h) df)"
    and "Current_Value h = round2 ar (position_value ar (hTicker h) df)"
    and "Profit_Loss h = round2 ar (position_profit ar (hTicker h) df)"
    and "Return_Pct h = round2 ar (position_return ar (hTicker h) df)"
proof -
  from assms obtain k where "0 < held_shares k df" and "h = format_holding ar (raw_row ar df k)"
    by (auto simp: holdings_rows_member)
  then show "0 < held_shares (hTicker h) df"
    and "Shares h = held_shares (hTicker h) df"
    and "Average_Cost h = round2 ar (average_cost ar (hTicker h) df)"
    and "Total_Cost h = round2 ar (position_cost ar (hTicker h) df)"
    and "Current_Value h = round2 ar (position_value ar (hTicker h) df)"
    and "Profit_Loss h = round2 ar (position_profit ar (hTicker h) df)"
    and "Return_Pct h = round2 ar (position_return ar (hTicker h) df)"
    by simp_all
qed

lemma holdings_rows_covers:
  "0 < held_shares k df \<Longrightarrow> \<exists>h \<in> set (holdings_rows ar df). hTicker h = k"
  by (auto simp: holdings_rows_def set_held_tickers)

lemma average_cost_no_buys: "buy_rows k df = [] \<Longrightarrow> average_cost ar k df = 0"
  by (simp add: average_cost_def bought_shares_def)

lemma column_sum_Frame [simp]:
  "column_sum ar col (Frame rows) = Inr (f_sum ar (map col rows))"
  by (simp add: column_sum_def column_def)

lemma guarded_sum_any:
  "(if \<not> frame_empty fr then column_sum ar col fr else Inr 0) =
   Inr (if frame_rows fr = [] then 0 else f_sum ar (map col (frame_rows fr)))"
  by (cases fr) simp_all

lemma return_checked:
  "(if 0 < b then ebind (divide_checked ar a b) (\<lambda>q. Inr (fmul ar q 100)) else Inr 0) =
   Inr (if 0 < b then fmul ar (fdiv ar a b) 100 else 0)"
  by (simp add: divide_checked_def)

lemma get_portfolio_summary_Inr:
  "\<exists>s. get_portfolio_summary ar df = Inr s \<and>
     total_invested s =
       (if holdings_rows ar df = [] then 0 else f_sum ar (map Total_Cost (holdings_rows ar df))) \<and>
     current_value s =
       (if holdings_rows ar df = [] then 0
        else f_sum ar (map Current_Value (holdings_rows ar df))) \<and>
     profit_loss s = fsub ar (current_value s) (total_invested s) \<and>
     return_pct s =
       (if 0 < total_invested s
        then fmul ar (fdiv ar (profit_loss s) (total_invested s)) 100 else 0)"
proof (cases "df = []")
  case True
  then show ?thesis
    by (simp add: get_portfolio_summary_def holdings_rows_def)
next
  case False
  obtain fr where fr: "get_current_holdings ar df = Inr fr"
    and rows: "frame_rows fr = holdings_rows ar df"
    using get_current_holdings_frame_rows by blast
  with False show ?thesis
    by (simp add: get_portfolio_summary_def guarded_sum_any return_checked Let_def)
qed

section \<open>Holdings: average cost and total cost\<close>

text \<open>
  Claim C2, as stated, fails on the returned frame because its money columns are
  rounded: on \<open>ledger_thirds\<close> the row of AAA has Average Cost 3.33, not 10/3, and Total
  Cost 6.67, which is not Average Cost times the 2 shares.
\<close>

lemma thirds_holdings:
  "get_current_holdings exact_arith ledger_thirds =
     Inr (Frame [\<lparr>hTicker = ''AAA'', Shares = 2, Average_Cost = 333 / 100,
                   Total_Cost = 667 / 100, Current_Value = 8, Profit_Loss = 133 / 100,
                   Return_Pct = 20\<rparr>,
                 \<lparr>hTicker = ''BBB'', Shares = 2, Average_Cost = 333 / 100,
                   Total_Cost = 667 / 100, Current_Value = 8, Profit_Loss = 133 / 100,
                   Return_Pct = 20\<rparr>])"
  by code_simp

theorem average_cost_counterexample:
  "\<exists>fr h. get_current_holdings exact_arith ledger_thirds = Inr fr \<and>
     h \<in> set (frame_rows fr) \<and> hTicker h = ''AAA'' \<and> Shares h = 2 \<and>
     Average_Cost h = 333 / 100 \<and> Total_Cost h = 667 / 100 \<and>
     Average_Cost h \<noteq>
       sum_list (map Total (buy_rows ''AAA'' ledger_thirds))
       / of_int (sum_list (map Quantity (buy_rows ''AAA'' ledger_thirds))) \<and>
     Total_Cost h \<noteq> Average_Cost h * of_int (Shares h)"
proof -
  let ?a = "\<lparr>hTicker = ''AAA'', Shares = 2, Average_Cost = 333 / 100,
             Total_Cost = 667 / 100, Current_Value = 8, Profit_Loss = 133 / 100,
             Return_Pct = 20\<rparr>"
  let ?b = "\<lparr>hTicker = ''BBB'', Shares = 2, Average_Cost = 333 / 100,
             Total_Cost = 667 / 100, Current_Value = 8, Profit_Loss = 133 / 100,
             Return_Pct = 20\<rparr>"
  have "sum_list (map Total (buy_rows ''AAA'' ledger_thirds)) = 10"
    "sum_list (map Quantity (buy_rows ''AAA'' ledger_thirds)) = 3"
    by (simp_all add: buy_rows_def ledger_thirds_def)
  then show ?thesis
    by (intro exI [of _ "Frame [?a, ?b]"] exI [of _ ?a]) (simp add: thirds_holdings)
qed

text \<open>
  Claim C2, amended. For every ledger, every ticker whose held shares are positive has a
  row in the Holdings Calculator's output, and in each row Average Cost is the sum of
  the Buy totals of the ticker divided by the sum of its Buy quantities, rounded to two
  decimals; the quotient counts as 0 when the bought quantity is not positive, so
  Average Cost is 0 when the ticker has no Buy row, and Sell rows play no part. Total
  Cost is the unrounded average times the Shares, rounded to two decimals, hence 0
  without buys. The sums, the quotient and the product are the code's: an int64 sum
  and float arithmetic.
\<close>

theorem average_cost_rounded:
  "\<exists>fr. get_current_holdings ar df = Inr fr \<and>
     (\<forall>k. 0 < held_shares k df \<longrightarrow> (\<exists>h \<in> set (frame_rows fr). hTicker h = k)) \<and>
     (\<forall>h \<in> set (frame_rows fr).
        0 < held_shares (hTicker h) df \<and> Shares h = held_shares (hTicker h) df \<and>
        Average_Cost h =
          round2 ar
            (if 0 < bought_shares (hTicker h) df
             then fdiv ar (f_sum ar (map Total (buy_rows (hTicker h) df)))
                    (f_of_int ar (bought_shares (hTicker h) df))
             else 0) \<and>
        Total_Cost h =
          round2 ar (fmul ar (average_cost ar (hTicker h) df) (f_of_int ar (Shares h))) \<and>
        (buy_rows (hTicker h) df = [] \<longrightarrow> Average_Cost h = 0 \<and> Total_Cost h = 0))"
proof -
  obtain fr where fr: "get_current_holdings ar df = Inr fr"
    and rows: "frame_rows fr = holdings_rows ar df"
    using get_current_holdings_frame_rows by blast
  have a: "\<forall>k. 0 < held_shares k df \<longrightarrow> (\<exists>h \<in> set (frame_rows fr). hTicker h = k)"
    by (simp add: rows holdings_rows_covers)
  have b: "\<forall>h \<in> set (frame_rows fr).
        0 < held_shares (hTicker h) df \<and> Shares h = held_shares (hTicker h) df \<and>
        Average_Cost h =
          round2 ar
            (if 0 < bought_shares (hTicker h) df
             then fdiv ar (f_sum ar (map Total (buy_rows (hTicker h) df)))
                    (f_of_int ar (bought_shares (hTicker h) df))
             else 0) \<and>
        Total_Cost h =
          round2 ar (fmul ar (average_cost ar (hTicker h) df) (f_of_int ar (Shares h))) \<and>
        (buy_rows (hTicker h) df = [] \<longrightarrow> Average_Cost h = 0 \<and> Total_Cost h = 0)"
  proof
    fix h assume "h \<in> set (frame_rows fr)"
    then have h: "h \<in> set (holdings_rows ar df)"
      by (simp add: rows)
    note v = holdings_rows_values [OF h]
    have avg: "Average_Cost h =
          round2 ar
            (if 0 < bought_shares (hTicker h) df
             then fdiv ar (f_sum ar (map Total (buy_rows (hTicker h) df)))
                    (f_of_int ar (bought_shares (hTicker h) df))
             else 0)"
      using v(3) by (simp add: average_cost_def)
    have cost: "Total_Cost h =
          round2 ar (fmul ar (average_cost ar (hTicker h) df) (f_of_int ar (Shares h)))"
      using v(4) by (simp add: position_cost_def v(2))
    have none: "Average_Cost h = 0 \<and> Total_Cost h = 0" if "buy_rows (hTicker h) df = []"
      using that v(3) cost by (simp add: average_cost_no_buys)
    from v(1) v(2) avg cost none
    show "0 < held_shares (hTicker h) df \<and> Shares h = held_shares (hTicker h) df \<and>
        Average_Cost h =
          round2 ar
            (if 0 < bought_shares (hTicker h) df
             then fdiv ar (f_sum ar (map Total (buy_rows (hTicker h) df)))
                    (f_of_int ar (bought_shares (hTicker h) df))
             else 0) \<and>
        Total_Cost h =
          round2 ar (fmul ar (average_cost ar (hTicker h) df) (f_of_int ar (Shares h))) \<and>
        (buy_rows (hTicker h) df = [] \<longrightarrow> Average_Cost h = 0 \<and> Total_Cost h = 0)"
      by blast
  qed
  from fr a b show ?thesis by blast
qed

text \<open>On the example ledger: 7 shares held, average cost 1500 / 10, total cost 7 times 150.\<close>

lemma example_figures:
  "held_shares ''AAPL'' ledger_example = 7"
  "bought_shares ''AAPL'' ledger_example = 10"
  "average_cost exact_arith ''AAPL'' ledger_example = 150"
  "round2 exact_arith 150 = 150"
  "round2 exact_arith (fmul exact_arith 150 (f_of_int exact_arith 7)) = 1050"
  by code_simp+

theorem average_cost_rounded_witness:
  "\<exists>fr h. get_current_holdings exact_arith ledger_example = Inr fr \<and>
     h \<in> set (frame_rows fr) \<and> hTicker h = ''AAPL'' \<and> Shares h = 7 \<and>
     Average_Cost h = 150 \<and> Total_Cost h = 1050"
proof -
  obtain fr where fr: "get_current_holdings exact_arith ledger_example = Inr fr"
    and ex: "\<forall>k. 0 < held_shares k ledger_example \<longrightarrow> (\<exists>h \<in> set (frame_rows fr). hTicker h = k)"
    and vals: "\<forall>h \<in> set (frame_rows fr).
        Shares h = held_shares (hTicker h) ledger_example \<and>
        Average_Cost h =
          round2 exact_arith
            (if 0 < bought_shares (hTicker h) ledger_example
             then fdiv exact_arith (f_sum exact_arith (map Total (buy_rows (hTicker h) ledger_example)))
                    (f_of_int exact_arith (bought_shares (hTicker h) ledger_example))
             else 0) \<and>
        Total_Cost h =
          round2 exact_arith
            (fmul exact_arith (average_cost exact_arith (hTicker h) ledger_example)
               (f_of_int exact_arith (Shares h)))"
    using average_cost_rounded [of exact_arith ledger_example] by blast
  from ex example_figures(1) obtain h where h: "h \<in> set (frame_rows fr)" "hTicker h = ''AAPL''"
    by (metis zero_less_numeral)
  with vals have sh: "Shares h = 7"
    and avg: "Average_Cost h = round2 exact_arith (average_cost exact_arith ''AAPL'' ledger_example)"
    and cost: "Total_Cost h =
          round2 exact_arith
            (fmul exact_arith (average_cost exact_arith ''AAPL'' ledger_example)
               (f_of_int exact_arith (Shares h)))"
    by (simp_all add: example_figures(1) average_cost_def)
  from avg cost sh have "Average_Cost h = 150" "Total_Cost h = 1050"
    by (simp_all add: example_figures)
  with fr h sh show ?thesis by blast
qed

section \<open>No division by zero\<close>

text \<open>
  Claim C8, as stated, fails where a total cost is negative: the code guards its
  divisions with ``greater than 0'', not with ``nonzero''. On \<open>ledger_negative_total\<close>
  the row of XYZ has Total Cost -6 and Profit/Loss 8, and its Return \% is 0, not
  8 / -6 times 100.
\<close>

lemma negative_total_holdings:
  "get_current_holdings exact_arith ledger_negative_total =
     Inr (Frame [\<lparr>hTicker = ''XYZ'', Shares = 2, Average_Cost = - 3, Total_Cost = - 6,
                   Current_Value = 2, Profit_Loss = 8, Return_Pct = 0\<rparr>])"
  by code_simp

theorem return_pct_counterexample:
  "\<exists>fr h. get_current_holdings exact_arith ledger_negative_total = Inr fr \<and>
     h \<in> set (frame_rows fr) \<and> Total_Cost h = - 6 \<and> Profit_Loss h = 8 \<and>
     Total_Cost h \<noteq> 0 \<and> Return_Pct h = 0 \<and>
     Return_Pct h \<noteq> Profit_Loss h / Total_Cost h * 100"
  by (intro exI [of _ "Frame [\<lparr>hTicker = ''XYZ'', Shares = 2, Average_Cost = - 3,
          Total_Cost = - 6, Current_Value = 2, Profit_Loss = 8, Return_Pct = 0\<rparr>]"]
        exI [of _ "\<lparr>hTicker = ''XYZ'', Shares = 2, Average_Cost = - 3,
          Total_Cost = - 6, Current_Value = 2, Profit_Loss = 8, Return_Pct = 0\<rparr>"])
    (simp add: negative_total_holdings)

text \<open>
  Claim C8, amended. For every ledger the Holdings Calculator and the Portfolio Summary
  Aggregator return a result: no division with a zero divisor is ever carried out, nor
  does any other step fail. Each per-ticker Return \% is the position's profit divided by
  its total cost, times 100, when the total cost is positive, and 0 otherwise, computed
  at full precision and rounded to two decimals in the output, as Total Cost and
  Profit/Loss are. The summary's \<open>return_pct\<close> is \<open>profit_loss / total_invested * 100\<close>
  when \<open>total_invested\<close> is positive and 0 otherwise.
\<close>

theorem no_division_by_zero:
  "\<exists>fr s. get_current_holdings ar df = Inr fr \<and> get_portfolio_summary ar df = Inr s \<and>
     (\<forall>h \<in> set (frame_rows fr).
        Total_Cost h = round2 ar (position_cost ar (hTicker h) df) \<and>
        Profit_Loss h = round2 ar (position_profit ar (hTicker h) df) \<and>
        Return_Pct h =
          round2 ar
            (if 0 < position_cost ar (hTicker h) df
             then fmul ar
                    (fdiv ar (position_profit ar (hTicker h) df)
                       (position_cost ar (hTicker h) df)) 100
             else 0)) \<and>
     profit_loss s = fsub ar (current_value s) (total_invested s) \<and>
     return_pct s =
       (if 0 < total_invested s
        then fmul ar (fdiv ar (profit_loss s) (total_invested s)) 100 else 0)"
proof -
  obtain fr where fr: "get_current_holdings ar df = Inr fr"
    and rows: "frame_rows fr = holdings_rows ar df"
    using get_current_holdings_frame_rows by blast
  obtain s where s: "get_portfolio_summary ar df = Inr s"
    and pl: "profit_loss s = fsub ar (current_value s) (total_invested s)"
    and ret: "return_pct s =
       (if 0 < total_invested s
        then fmul ar (fdiv ar (profit_loss s) (total_invested s)) 100 else 0)"
    using get_portfolio_summary_Inr by blast
  have "\<forall>h \<in> set (frame_rows fr).
        Total_Cost h = round2 ar (position_cost ar (hTicker h) df) \<and>
        Profit_Loss h = round2 ar (position_profit ar (hTicker h) df) \<and>
        Return_Pct h =
          round2 ar
            (if 0 < position_cost ar (hTicker h) df
             then fmul ar
                    (fdiv ar (position_profit ar (hTicker h) df)
                       (position_cost ar (hTicker h) df)) 100
             else 0)"
    using holdings_rows_values [of _ ar df]
    by (simp add: rows position_return_def)
  with fr s pl ret show ?thesis by blast
qed

text \<open>
  On the example ledger: total cost 1050, profit 35, and both the row's Return \% and
  the summary's \<open>return_pct\<close> come from 35 / 1050 * 100.
\<close>

lemma example_holdings:
  "get_current_holdings exact_arith ledger_example =
     Inr (Frame [\<lparr>hTicker = ''AAPL'', Shares = 7, Average_Cost = 150, Total_Cost = 1050,
                   Current_Value = 1085, Profit_Loss = 35, Return_Pct = 333 / 100\<rparr>])"
  by code_simp

lemma example_summary:
  "get_portfolio_summary exact_arith ledger_example =
     Inr \<lparr>total_invested = 1050, current_value = 1085, profit_loss = 35,
          return_pct = 10 / 3, total_transactions = 2, total_buys = 1, total_sells = 1\<rparr>"
  by code_simp

theorem no_division_by_zero_witness:
  "\<exists>fr s h. get_current_holdings exact_arith ledger_example = Inr fr \<and>
     get_portfolio_summary exact_arith ledger_example = Inr s \<and>
     h \<in> set (frame_rows fr) \<and> 0 < position_cost exact_arith (hTicker h) ledger_example \<and>
     Return_Pct h = 333 / 100 \<and> 0 < total_invested s \<and>
     return_pct s = fmul exact_arith (fdiv exact_arith (profit_loss s) (total_invested s)) 100 \<and>
     return_pct s = 10 / 3"
proof -
  obtain fr s where fr: "get_current_holdings exact_arith ledger_example = Inr fr"
    and s: "get_portfolio_summary exact_arith ledger_example = Inr s"
    and ret: "return_pct s =
       (if 0 < total_invested s
        then fmul exact_arith (fdiv exact_arith (profit_loss s) (total_invested s)) 100 else 0)"
    using no_division_by_zero [of exact_arith ledger_example] by blast
  let ?h = "\<lparr>hTicker = ''AAPL'', Shares = 7, Average_Cost = 150, Total_Cost = 1050,
             Current_Value = 1085, Profit_Loss = 35, Return_Pct = 333 / 100\<rparr>"
  from fr example_holdings have h: "?h \<in> set (frame_rows fr)"
    by auto
  have pos: "0 < position_cost exact_arith ''AAPL'' ledger_example"
    by code_simp
  from s example_summary
  have seq: "s = \<lparr>total_invested = 1050, current_value = 1085, profit_loss = 35,
          return_pct = 10 / 3, total_transactions = 2, total_buys = 1, total_sells = 1\<rparr>"
    by simp
  have inv: "0 < total_invested s" and r: "return_pct s = 10 / 3"
    by (simp_all add: seq)
  from ret inv
  have "return_pct s = fmul exact_arith (fdiv exact_arith (profit_loss s) (total_invested s)) 100"
    by simp
  with fr s h pos inv r show ?thesis
    by (intro exI [of _ fr] exI [of _ s] exI [of _ ?h]) simp
qed

section \<open>The summary adds up rounded values\<close>

text \<open>
  Claim C9. For every ledger the summary's \<open>total_invested\<close> is the sum of the Total Cost
  column of the Holdings Calculator's output, and \<open>current_value\<close> the sum of its Current
  Value column (0 when the output has no row); the output has a row for exactly the
  tickers with positive held shares, and in each row these two values are the
  position's cost and value after rounding to two decimals. So the summary adds up
  values that are already rounded; the sums themselves are not rounded again.
\<close>

theorem summary_sums_rounded_values:
  "\<exists>fr s. get_current_holdings ar df = Inr fr \<and> get_portfolio_summary ar df = Inr s \<and>
     (\<forall>k. (\<exists>h \<in> set (frame_rows fr). hTicker h = k) \<longleftrightarrow> 0 < held_shares k df) \<and>
     (\<forall>h \<in> set (frame_rows fr).
        Total_Cost h = round2 ar (position_cost ar (hTicker h) df) \<and>
        Current_Value h = round2 ar (position_value ar (hTicker h) df)) \<and>
     total_invested s =
       (if frame_rows fr = [] then 0 else f_sum ar (map Total_Cost (frame_rows fr))) \<and>
     current_value s =
       (if frame_rows fr = [] then 0 else f_sum ar (map Current_Value (frame_rows fr)))"
proof -
  obtain fr where fr: "get_current_holdings ar df = Inr fr"
    and rows: "frame_rows fr = holdings_rows ar df"
    using get_current_holdings_frame_rows by blast
  obtain s where s: "get_portfolio_summary ar df = Inr s"
    and inv: "total_invested s =
       (if holdings_rows ar df = [] then 0 else f_sum ar (map Total_Cost (holdings_rows ar df)))"
    and cur: "current_value s =
       (if holdings_rows ar df = [] then 0
        else f_sum ar (map Current_Value (holdings_rows ar df)))"
    using get_portfolio_summary_Inr by blast
  have "\<And>k. (\<exists>h \<in> set (frame_rows fr). hTicker h = k) \<longleftrightarrow> k \<in> set (map hTicker (frame_rows fr))"
    by auto
  then have a: "\<forall>k. (\<exists>h \<in> set (frame_rows fr). hTicker h = k) \<longleftrightarrow> 0 < held_shares k df"
    by (simp only: rows holdings_rows_tickers set_held_tickers) simp
  have b: "\<forall>h \<in> set (frame_rows fr).
        Total_Cost h = round2 ar (position_cost ar (hTicker h) df) \<and>
        Current_Value h = round2 ar (position_value ar (hTicker h) df)"
    using holdings_rows_values [of _ ar df] by (simp add: rows)
  from fr s a b inv cur show ?thesis
    by (intro exI [of _ fr] exI [of _ s]) (simp add: rows)
qed

text \<open>
  The difference shows on \<open>ledger_thirds\<close>. Each of the two positions costs 20/3, which
  the output holds as 6.67, so \<open>total_invested\<close> is 13.34; the full-precision costs add up
  to 40/3, which rounded once would be 13.33.
\<close>

lemma thirds_summary:
  "get_portfolio_summary exact_arith ledger_thirds =
     Inr \<lparr>total_invested = 1334 / 100, current_value = 16, profit_loss = 266 / 100,
          return_pct = 13300 / 667, total_transactions = 6, total_buys = 4, total_sells = 2\<rparr>"
  by code_simp

lemma thirds_full_precision:
  "position_cost exact_arith ''AAA'' ledger_thirds = 20 / 3"
  "position_cost exact_arith ''BBB'' ledger_thirds = 20 / 3"
  "round2 exact_arith (20 / 3) = 667 / 100"
  "round2 exact_arith (f_sum exact_arith [20 / 3, 20 / 3]) = 1333 / 100"
  "f_sum exact_arith [667 / 100, 667 / 100] = 1334 / 100"
  by code_simp+

theorem summary_sums_rounded_values_witness:
  "\<exists>fr s. get_current_holdings exact_arith ledger_thirds = Inr fr \<and>
     get_portfolio_summary exact_arith ledger_thirds = Inr s \<and>
     map hTicker (frame_rows fr) = [''AAA'', ''BBB''] \<and>
     map Total_Cost (frame_rows fr) = [667 / 100, 667 / 100] \<and>
     total_invested s = 1334 / 100 \<and>
     total_invested s \<noteq>
       round2 exact_arith
         (f_sum exact_arith
            (map (\<lambda>h. position_cost exact_arith (hTicker h) ledger_thirds) (frame_rows fr)))"
proof -
  obtain fr s where fr: "get_current_holdings exact_arith ledger_thirds = Inr fr"
    and s: "get_portfolio_summary exact_arith ledger_thirds = Inr s"
    and inv: "total_invested s =
       (if frame_rows fr = [] then 0 else f_sum exact_arith (map Total_Cost (frame_rows fr)))"
    using summary_sums_rounded_values [of exact_arith ledger_thirds] by blast
  from fr thirds_holdings
  have rows: "frame_rows fr =
      [\<lparr>hTicker = ''AAA'', Shares = 2, Average_Cost = 333 / 100,
         Total_Cost = 667 / 100, Current_Value = 8, Profit_Loss = 133 / 100,
         Return_Pct = 20\<rparr>,
       \<lparr>hTicker = ''BBB'', Shares = 2, Average_Cost = 333 / 100,
         Total_Cost = 667 / 100, Current_Value = 8, Profit_Loss = 133 / 100,
         Return_Pct = 20\<rparr>]"
    by auto
  have t: "map hTicker (frame_rows fr) = [''AAA'', ''BBB'']"
    and c: "map Total_Cost (frame_rows fr) = [667 / 100, 667 / 100]"
    by (simp_all add: rows)
  from inv have i: "total_invested s = 1334 / 100"
    by (simp add: c thirds_full_precision(5)) (simp add: rows)
  have "round2 exact_arith
         (f_sum exact_arith
            (map (\<lambda>h. position_cost exact_arith (hTicker h) ledger_thirds) (frame_rows fr)))
        = 1333 / 100"
    by (simp add: rows thirds_full_precision)
  with fr s t c i show ?thesis
    by (intro exI [of _ fr] exI [of _ s]) simp
qed

section \<open>Facts about the historical replay\<close>

lemma sorts_by_Date_sort_key: "sorts_by_Date (sort_key Date)"
  by (simp add: sorts_by_Date_def)

lemma sorts_by_DateD:
  assumes "sorts_by_Date srt"
  shows "mset (srt df) = mset df" and "sorted (map Date (srt df))"
    and "set (srt df) = set df" and "srt [] = []"
proof -
  show m: "mset (srt df) = mset df" and "sorted (map Date (srt df))"
    using assms by (simp_all add: sorts_by_Date_def)
  from m show "set (srt df) = set df"
    by (rule mset_eq_setD)
  from assms have "mset (srt []) = mset ([] :: ledger)"
    by (simp add: sorts_by_Date_def)
  then show "srt [] = []"
    by simp
qed

text \<open>With pairwise different dates only one arrangement is in date order.\<close>

lemma sort_determined_if_distinct:
  assumes "sorts_by_Date srt" and "distinct (map Date df)"
  shows "srt df = sort_key Date df"
proof -
  from assms(2) have "inj_on Date (set df)"
    by (simp add: distinct_map)
  with sorts_by_DateD(1,2) [OF assms(1), of df] show ?thesis
    by (metis sort_key_inj_key_eq)
qed

lemma sort_identity_if_strictly_ascending:
  assumes "sorts_by_Date srt" and "sorted (map Date df)" and "distinct (map Date df)"
  shows "srt df = df"
  using sort_determined_if_distinct [OF assms(1,3)] assms(2)
  by (simp add: sort_key_id_if_sorted)

lemma sum_list_mset_cong:
  fixes g :: "'a \<Rightarrow> int"
  assumes "mset xs = mset ys"
  shows "sum_list (map g xs) = sum_list (map g ys)"
proof -
  have "sum_list (map g xs) = sum_mset (mset (map g xs))"
    by (simp only: sum_mset_sum_list)
  also have "\<dots> = sum_mset (mset (map g ys))"
    using assms by simp
  also have "\<dots> = sum_list (map g ys)"
    by (simp only: sum_mset_sum_list)
  finally show ?thesis .
qed

lemma net_shares_mset_cong:
  assumes "mset xs = mset ys"
  shows "net_shares k xs = net_shares k ys"
proof -
  have m: "\<And>Q. mset (filter Q xs) = mset (filter Q ys)"
    using assms by simp
  show ?thesis
    unfolding net_shares_def buy_rows_def sell_rows_def
    by (simp only: sum_list_mset_cong [OF m])
qed

lemma held_shares_sorted_filter:
  assumes "sorts_by_Date srt"
  shows "held_shares k (filter P (srt df)) = held_shares k (filter P df)"
proof -
  have m: "mset (filter P (srt df)) = mset (filter P df)"
    by (simp add: sorts_by_DateD(1) [OF assms])
  show ?thesis
    unfolding held_shares_def by (simp only: net_shares_mset_cong [OF m])
qed

lemma holdings_rows_no_position:
  assumes "\<forall>k. held_shares k df \<le> 0"
  shows "holdings_rows ar df = []"
proof -
  have "held_tickers df = []"
    using assms by (simp add: held_tickers_def filter_empty_conv not_less)
  then show ?thesis
    by (simp add: holdings_rows_def)
qed

lemma set_unique_from: "set (unique_from seen xs) = set xs - set seen"
  by (induction xs arbitrary: seen) auto

lemma distinct_unique_from: "distinct (unique_from seen xs)"
  by (induction xs arbitrary: seen) (auto simp: set_unique_from)

lemma sorted_unique_from:
  fixes xs :: "'a::linorder list"
  shows "sorted xs \<Longrightarrow> sorted (unique_from seen xs)"
  by (induction xs arbitrary: seen) (auto simp: set_unique_from)

lemma unique_facts:
  "set (unique xs) = set xs" "distinct (unique xs)"
  by (simp_all add: unique_def set_unique_from distinct_unique_from)

lemma sorted_unique:
  fixes xs :: "'a::linorder list"
  shows "sorted xs \<Longrightarrow> sorted (unique xs)"
  by (simp add: unique_def sorted_unique_from)

text \<open>The value of the point of date \<open>d\<close>, given the sorted rows.\<close>

lemma performance_loop_Inr:
  "performance_loop ar sd ds =
     Inr (map (\<lambda>d. \<lparr>pDate = d, Portfolio_Value =
            (if holdings_rows ar (filter (\<lambda>t. Date t \<le> d) sd) = [] then 0
             else f_sum ar (map Current_Value
                    (holdings_rows ar (filter (\<lambda>t. Date t \<le> d) sd))))\<rparr>) ds)"
proof (induction ds)
  case Nil
  then show ?case by simp
next
  case (Cons d ds)
  obtain fr where "get_current_holdings ar (filter (\<lambda>t. Date t \<le> d) sd) = Inr fr"
    and "frame_rows fr = holdings_rows ar (filter (\<lambda>t. Date t \<le> d) sd)"
    using get_current_holdings_frame_rows by blast
  with Cons show ?case
    by (simp add: guarded_sum_any)
qed

lemma historical_Inr:
  assumes "sorts_by_Date srt"
  shows "calculate_historical_performance ar srt df =
     Inr (map (\<lambda>d. \<lparr>pDate = d, Portfolio_Value =
            (if holdings_rows ar (filter (\<lambda>t. Date t \<le> d) (srt df)) = [] then 0
             else f_sum ar (map Current_Value
                    (holdings_rows ar (filter (\<lambda>t. Date t \<le> d) (srt df)))))\<rparr>)
          (unique (map Date (srt df))))"
  by (simp add: calculate_historical_performance_def performance_loop_Inr Let_def
      unique_def sorts_by_DateD(4) [OF assms])

lemma historical_dates:
  assumes "sorts_by_Date srt"
  shows "sorted (unique (map Date (srt df)))"
    and "distinct (unique (map Date (srt df)))"
    and "set (unique (map Date (srt df))) = Date ` set df"
  by (simp_all add: sorted_unique unique_facts sorts_by_DateD(2,3) [OF assms])

lemma historical_sort_cong:
  "srt df = srt' df \<Longrightarrow>
     calculate_historical_performance ar srt df = calculate_historical_performance ar srt' df"
  by (simp add: calculate_historical_performance_def)

section \<open>Historical performance: one point per date\<close>

lemma unordered_sorted:
  assumes "sorts_by_Date srt"
  shows "srt ledger_unordered = sort_key Date ledger_unordered"
  by (rule sort_determined_if_distinct [OF assms]) (simp add: ledger_unordered_def)

lemma unordered_series:
  "calculate_historical_performance exact_arith (sort_key Date) ledger_unordered =
     Inr [\<lparr>pDate = 1, Portfolio_Value = 500\<rparr>, \<lparr>pDate = 2, Portfolio_Value = 2250\<rparr>]"
  by code_simp






section \<open>Historical performance: positions that are closed\<close>

lemma historical_point_exists:
  assumes "sorts_by_Date srt" and "calculate_historical_performance ar srt df = Inr pts"
    and "d \<in> Date ` set df"
  shows "\<exists>p \<in> set pts. pDate p = d"
proof -
  from assms(3) have "d \<in> set (unique (map Date (srt df)))"
    by (simp only: historical_dates(3) [OF assms(1)])
  with assms(2) historical_Inr [OF assms(1), of ar df] show ?thesis
    by force
qed

lemma sorted_le_last:
  fixes xs :: "'a::linorder list"
  shows "sorted xs \<Longrightarrow> x \<in> set xs \<Longrightarrow> x \<le> last xs"
  by (induction xs) auto

lemma oversold_sorted:
  assumes "sorts_by_Date srt"
  shows "srt ledger_oversold = sort_key Date ledger_oversold"
  by (rule sort_determined_if_distinct [OF assms]) (simp add: ledger_oversold_def)

lemma oversold_series:
  "calculate_historical_performance exact_arith (sort_key Date) ledger_oversold =
     Inr [\<lparr>pDate = 1, Portfolio_Value = 0\<rparr>, \<lparr>pDate = 2, Portfolio_Value = 0\<rparr>,
          \<lparr>pDate = 3, Portfolio_Value = 4611686018427387904\<rparr>]"
  by code_simp

lemma oversold_net_shares:
  "net_shares k (filter (\<lambda>t. Date t \<le> 3) ledger_oversold) \<le> 0"
  by (simp add: net_shares_def buy_rows_def sell_rows_def ledger_oversold_def)

text \<open>
  Claim C10, as stated, does not hold for every ledger: the share count of a ticker is
  an int64 sum. On \<open>ledger_oversold\<close> three sales of \<open>2 ^ 62\<close> shares leave the net shares
  at \<open>- 3 * 2 ^ 62\<close>, the int64 sum wraps to \<open>2 ^ 62\<close>, and the point of day 3 is worth
  \<open>2 ^ 62\<close> shares at price 1, whatever the sort does.
\<close>

theorem closed_position_counterexample:
  "\<not> (\<exists>srt pts. sorts_by_Date srt \<and>
        calculate_historical_performance exact_arith srt ledger_oversold = Inr pts \<and>
        (\<forall>p \<in> set pts.
           (\<forall>k. net_shares k (filter (\<lambda>t. Date t \<le> pDate p) ledger_oversold) \<le> 0) \<longrightarrow>
           Portfolio_Value p = 0))"
proof
  assume "\<exists>srt pts. sorts_by_Date srt \<and>
        calculate_historical_performance exact_arith srt ledger_oversold = Inr pts \<and>
        (\<forall>p \<in> set pts.
           (\<forall>k. net_shares k (filter (\<lambda>t. Date t \<le> pDate p) ledger_oversold) \<le> 0) \<longrightarrow>
           Portfolio_Value p = 0)"
  then obtain srt pts where srt: "sorts_by_Date srt"
    and pts: "calculate_historical_performance exact_arith srt ledger_oversold = Inr pts"
    and val: "\<forall>p \<in> set pts.
           (\<forall>k. net_shares k (filter (\<lambda>t. Date t \<le> pDate p) ledger_oversold) \<le> 0) \<longrightarrow>
           Portfolio_Value p = 0"
    by blast
  from pts oversold_series
    historical_sort_cong [of srt ledger_oversold "sort_key Date" exact_arith,
      OF oversold_sorted [OF srt]]
  have "pts = [\<lparr>pDate = 1, Portfolio_Value = 0\<rparr>, \<lparr>pDate = 2, Portfolio_Value = 0\<rparr>,
          \<lparr>pDate = 3, Portfolio_Value = 4611686018427387904\<rparr>]"
    by simp
  then have "\<lparr>pDate = 3, Portfolio_Value = 4611686018427387904\<rparr> \<in> set pts"
    by simp
  with val oversold_net_shares show False
    by fastforce
qed

text \<open>
  Claim C10, amended. For every ledger, at every date point at which the int64 share
  count of every ticker over the rows dated up to that point is not positive, the
  Historical Performance Reconstructor reports Portfolio Value 0: realized sale
  proceeds are not part of it. The share count is the net shares (Buy quantities minus
  Sell quantities) whenever those lie in the int64 range, so there the claim holds as
  stated.
\<close>

theorem closed_position_is_worth_zero:
  assumes "sorts_by_Date srt"
  shows "\<exists>pts. calculate_historical_performance ar srt df = Inr pts \<and>
     (\<forall>p \<in> set pts.
        (\<forall>k. held_shares k (filter (\<lambda>t. Date t \<le> pDate p) df) \<le> 0) \<longrightarrow>
        Portfolio_Value p = 0) \<and>
     (\<forall>p \<in> set pts.
        (\<forall>k. - (2 ^ 63) \<le> net_shares k (filter (\<lambda>t. Date t \<le> pDate p) df) \<and>
             net_shares k (filter (\<lambda>t. Date t \<le> pDate p) df) \<le> 0) \<longrightarrow>
        Portfolio_Value p = 0)"
proof -
  let ?val = "\<lambda>d. (if holdings_rows ar (filter (\<lambda>t. Date t \<le> d) (srt df)) = [] then 0
             else f_sum ar (map Current_Value
                    (holdings_rows ar (filter (\<lambda>t. Date t \<le> d) (srt df)))))"
  let ?pts = "map (\<lambda>d. \<lparr>pDate = d, Portfolio_Value = ?val d\<rparr>) (unique (map Date (srt df)))"
  have zero: "Portfolio_Value p = 0"
    if p: "p \<in> set ?pts" and held: "\<forall>k. held_shares k (filter (\<lambda>t. Date t \<le> pDate p) df) \<le> 0"
    for p
  proof -
    from p obtain d where d: "p = \<lparr>pDate = d, Portfolio_Value = ?val d\<rparr>"
      by auto
    from held have "\<forall>k. held_shares k (filter (\<lambda>t. Date t \<le> d) (srt df)) \<le> 0"
      by (simp add: d held_shares_sorted_filter [OF assms])
    then have "holdings_rows ar (filter (\<lambda>t. Date t \<le> d) (srt df)) = []"
      by (rule holdings_rows_no_position)
    then show ?thesis
      by (simp add: d)
  qed
  have first: "\<forall>p \<in> set ?pts.
        (\<forall>k. held_shares k (filter (\<lambda>t. Date t \<le> pDate p) df) \<le> 0) \<longrightarrow>
        Portfolio_Value p = 0"
    using zero by blast
  have second: "\<forall>p \<in> set ?pts.
        (\<forall>k. - (2 ^ 63) \<le> net_shares k (filter (\<lambda>t. Date t \<le> pDate p) df) \<and>
             net_shares k (filter (\<lambda>t. Date t \<le> pDate p) df) \<le> 0) \<longrightarrow>
        Portfolio_Value p = 0"
  proof (intro ballI impI)
    fix p
    assume p: "p \<in> set ?pts"
      and net: "\<forall>k. - (2 ^ 63) \<le> net_shares k (filter (\<lambda>t. Date t \<le> pDate p) df) \<and>
             net_shares k (filter (\<lambda>t. Date t \<le> pDate p) df) \<le> 0"
    have "held_shares k (filter (\<lambda>t. Date t \<le> pDate p) df) \<le> 0" for k
    proof -
      from net have lo: "- (2 ^ 63) \<le> net_shares k (filter (\<lambda>t. Date t \<le> pDate p) df)"
        and hi: "net_shares k (filter (\<lambda>t. Date t \<le> pDate p) df) \<le> 0"
        by simp_all
      from hi have "net_shares k (filter (\<lambda>t. Date t \<le> pDate p) df) < 2 ^ 63"
        by (rule le_less_trans) simp
      with lo hi show ?thesis
        unfolding held_shares_def by (simp only: int64_in_range)
    qed
    with p show "Portfolio_Value p = 0"
      by (intro zero) simp_all
  qed
  from historical_Inr [OF assms, of ar df] first second show ?thesis
    by (intro exI [of _ ?pts] conjI)
qed

text \<open>
  On \<open>ledger_exited\<close> ten shares bought at 150 are sold at 160 on day 2: the sale
  realized a profit of 100, and the point of day 2 is worth 0.
\<close>

lemma exited_figures:
  "held_shares k (filter (\<lambda>t. Date t \<le> 2) ledger_exited) \<le> 0"
  "realized_profit exact_arith ''AAPL'' ledger_exited = 100"
  "Date ` set ledger_exited = {1, 2}"
proof -
  have "net_shares k (filter (\<lambda>t. Date t \<le> 2) ledger_exited) = 0"
    by (simp add: net_shares_def buy_rows_def sell_rows_def ledger_exited_def)
  then show "held_shares k (filter (\<lambda>t. Date t \<le> 2) ledger_exited) \<le> 0"
    by (simp add: held_shares_def)
  show "realized_profit exact_arith ''AAPL'' ledger_exited = 100"
    by code_simp
  show "Date ` set ledger_exited = {1, 2}"
    by (auto simp: ledger_exited_def)
qed

theorem closed_position_is_worth_zero_witness:
  "sorts_by_Date (sort_key Date) \<and>
   realized_profit exact_arith ''AAPL'' ledger_exited = 100 \<and>
   (\<exists>pts p. calculate_historical_performance exact_arith (sort_key Date) ledger_exited = Inr pts \<and>
      p \<in> set pts \<and> pDate p = 2 \<and> Portfolio_Value p = 0)"
proof -
  obtain pts where
    pts: "calculate_historical_performance exact_arith (sort_key Date) ledger_exited = Inr pts"
    and val: "\<forall>p \<in> set pts.
        (\<forall>k. held_shares k (filter (\<lambda>t. Date t \<le> pDate p) ledger_exited) \<le> 0) \<longrightarrow>
        Portfolio_Value p = 0"
    using closed_position_is_worth_zero [OF sorts_by_Date_sort_key, of exact_arith ledger_exited]
    by blast
  have "2 \<in> Date ` set ledger_exited"
    by (simp add: exited_figures(3))
  with historical_point_exists [OF sorts_by_Date_sort_key pts]
  obtain p where p: "p \<in> set pts" "pDate p = 2"
    by blast
  with val exited_figures(1) have "Portfolio_Value p = 0"
    by simp
  with pts p sorts_by_Date_sort_key exited_figures(2) show ?thesis
    by blast
qed

section \<open>The last point and the summary\<close>

text \<open>
  The last point of the series is the point of the latest date, so it is computed from
  all rows, in the order the sort has put them: it is the \<open>current_value\<close> of the
  summary of the sorted ledger.
\<close>

lemma last_point_is_summary_value_of_sorted_ledger:
  assumes "sorts_by_Date srt" and "df \<noteq> []"
  shows "\<exists>pts s. calculate_historical_performance ar srt df = Inr pts \<and> pts \<noteq> [] \<and>
     get_portfolio_summary ar (srt df) = Inr s \<and>
     Portfolio_Value (last pts) = current_value s"
proof -
  let ?val = "\<lambda>d. (if holdings_rows ar (filter (\<lambda>t. Date t \<le> d) (srt df)) = [] then 0
             else f_sum ar (map Current_Value
                    (holdings_rows ar (filter (\<lambda>t. Date t \<le> d) (srt df)))))"
  let ?ds = "unique (map Date (srt df))"
  let ?pts = "map (\<lambda>d. \<lparr>pDate = d, Portfolio_Value = ?val d\<rparr>) ?ds"
  from assms(2) have "set df \<noteq> {}"
    by simp
  then have ne: "?ds \<noteq> []"
    using historical_dates(3) [OF assms(1), of df] by auto
  have "filter (\<lambda>t. Date t \<le> last ?ds) (srt df) = srt df"
  proof -
    have "Date t \<le> last ?ds" if "t \<in> set (srt df)" for t
    proof -
      from that have "Date t \<in> set ?ds"
        by (simp add: unique_facts)
      with historical_dates(1) [OF assms(1), of df] show ?thesis
        by (rule sorted_le_last)
    qed
    then show ?thesis
      by (simp add: filter_id_conv)
  qed
  then have lastv: "Portfolio_Value (last ?pts) =
      (if holdings_rows ar (srt df) = [] then 0
       else f_sum ar (map Current_Value (holdings_rows ar (srt df))))"
    using ne by (simp add: last_map)
  obtain s where s: "get_portfolio_summary ar (srt df) = Inr s"
    "current_value s =
       (if holdings_rows ar (srt df) = [] then 0
        else f_sum ar (map Current_Value (holdings_rows ar (srt df))))"
    using get_portfolio_summary_Inr [of ar "srt df"] by blast
  from ne have "?pts \<noteq> []"
    by simp
  with historical_Inr [OF assms(1), of ar df] lastv s show ?thesis
    by (intro exI [of _ ?pts] exI [of _ s] conjI) simp_all
qed

text \<open>
  A ledger whose dates are strictly ascending is left as it is by the sort, and the two
  numbers agree.
\<close>

lemma last_point_is_summary_value_if_strictly_ascending:
  assumes "sorts_by_Date srt" and "df \<noteq> []"
    and "sorted (map Date df)" and "distinct (map Date df)"
  shows "\<exists>pts s. calculate_historical_performance ar srt df = Inr pts \<and> pts \<noteq> [] \<and>
     get_portfolio_summary ar df = Inr s \<and>
     Portfolio_Value (last pts) = current_value s"
  using last_point_is_summary_value_of_sorted_ledger [OF assms(1,2), of ar]
  by (simp add: sort_identity_if_strictly_ascending [OF assms(1,3,4)])

lemma unordered_summary:
  "get_portfolio_summary exact_arith ledger_unordered =
     Inr \<lparr>total_invested = 2000, current_value = 1500, profit_loss = - 500,
          return_pct = - 25, total_transactions = 2, total_buys = 2, total_sells = 0\<rparr>"
  by code_simp

text \<open>
  Claim C4 does not hold of the code. On \<open>ledger_unordered\<close> (ten shares bought at 150 on
  day 2, entered before five shares bought at 100 on day 1) the last point of the
  series, whatever the sort does with equal dates, is 15 shares at the price of the
  latest date, 2250, and the \<open>current_value\<close> of the summary of the same ledger is 15
  shares at the price of the last row entered, 1500.
\<close>

theorem last_point_differs_on_unordered_ledger:
  assumes "sorts_by_Date srt"
  shows "calculate_historical_performance exact_arith srt ledger_unordered =
       Inr [\<lparr>pDate = 1, Portfolio_Value = 500\<rparr>, \<lparr>pDate = 2, Portfolio_Value = 2250\<rparr>] \<and>
     get_portfolio_summary exact_arith ledger_unordered =
       Inr \<lparr>total_invested = 2000, current_value = 1500, profit_loss = - 500,
            return_pct = - 25, total_transactions = 2, total_buys = 2, total_sells = 0\<rparr>"
  using unordered_series unordered_summary
    historical_sort_cong [of srt ledger_unordered "sort_key Date" exact_arith,
      OF unordered_sorted [OF assms]]
  by simp

theorem last_point_differs_on_unordered_ledger_witness:
  "sorts_by_Date (sort_key Date) \<and>
   calculate_historical_performance exact_arith (sort_key Date) ledger_unordered =
       Inr [\<lparr>pDate = 1, Portfolio_Value = 500\<rparr>, \<lparr>pDate = 2, Portfolio_Value = 2250\<rparr>] \<and>
   get_portfolio_summary exact_arith ledger_unordered =
       Inr \<lparr>total_invested = 2000, current_value = 1500, profit_loss = - 500,
            return_pct = - 25, total_transactions = 2, total_buys = 2, total_sells = 0\<rparr>"
  using last_point_differs_on_unordered_ledger [OF sorts_by_Date_sort_key]
    sorts_by_Date_sort_key
  by simp

section \<open>Facts about the report\<close>

lemma unrealized_lookup_Inr:
  "unrealized_lookup tk fr = Inr (unrealized_of tk (frame_rows fr))"
proof (cases fr)
  case NoColumns
  then show ?thesis
    by (simp add: unrealized_lookup_def unrealized_of_def)
next
  case (Frame rows)
  show ?thesis
  proof (cases "filter (\<lambda>h. hTicker h = tk) rows")
    case Nil
    then have "tk \<notin> hTicker ` set rows"
      by (auto simp: filter_empty_conv)
    with Nil Frame show ?thesis
      by (simp add: unrealized_lookup_def unrealized_of_def column_def)
  next
    case (Cons h hs)
    then have "h \<in> set (filter (\<lambda>h. hTicker h = tk) rows)"
      by simp
    then have "tk \<in> hTicker ` set rows" and "rows \<noteq> []"
      by force+
    with Cons Frame show ?thesis
      by (simp add: unrealized_lookup_def unrealized_of_def column_def values0_def)
  qed
qed

lemma report_row_of_Inr:
  assumes "frame_rows fr = holdings_rows ar df"
  shows "report_row_of ar fr k (filter (\<lambda>t. Ticker t = k) df) = Inr (report_value ar df k)"
proof -
  have b: "(if buy_rows k df \<noteq> [] then int64 (sum_list (map Quantity (buy_rows k df))) else 0)
      = bought_shares k df"
    by (simp add: bought_shares_def)
  have s: "(if sell_rows k df \<noteq> [] then int64 (sum_list (map Quantity (sell_rows k df))) else 0)
      = sold_shares k df"
    by (simp add: sold_shares_def)
  have pos: "buy_rows k df \<noteq> []" if "0 < bought_shares k df"
    using that by (auto simp: bought_shares_def)
  have avg: "(if 0 < bought_shares k df
       then divide_by_int ar
              (if buy_rows k df \<noteq> [] then f_sum ar (map Total (buy_rows k df)) else 0)
              (bought_shares k df)
       else Inr 0) = Inr (average_cost ar k df)"
    using pos by (simp add: divide_by_int_def average_cost_def)
  show ?thesis
    unfolding report_row_of_def Let_def filter_filter_Ticker
      buy_rows_def [symmetric] sell_rows_def [symmetric] b s avg
    by (simp add: unrealized_lookup_Inr assms report_value_def realized_profit_def
        cost_basis_sold_def buy_cost_def sell_revenue_def)
qed

lemma report_loop_Inr:
  assumes "frame_rows fr = holdings_rows ar df"
  shows "report_loop ar fr (map (\<lambda>k. (k, filter (\<lambda>t. Ticker t = k) df)) ks) =
     Inr (map (report_value ar df) ks)"
  by (induction ks) (simp_all add: report_row_of_Inr [OF assms])

lemma report_data_Inr:
  "report_data ar df = Inr (map (report_value ar df) (sort (remdups (map Ticker df))))"
proof -
  obtain fr where "get_current_holdings ar df = Inr fr"
    "frame_rows fr = holdings_rows ar df"
    using get_current_holdings_frame_rows by blast
  then show ?thesis
    by (simp add: report_data_def groupby_Ticker_def report_loop_Inr)
qed

lemma generate_profit_loss_report_Inr:
  "generate_profit_loss_report ar srt df =
     Inr (if df = [] then []
          else map (format_report_row ar)
                 (srt (map (report_value ar df) (sort (remdups (map Ticker df))))))"
proof (cases "df = []")
  case True
  then show ?thesis
    by (simp add: generate_profit_loss_report_def)
next
  case False
  then have "sort (remdups (map Ticker df)) \<noteq> []"
    by (metis length_0_conv length_sort list.map_disc_iff remdups_eq_nil_iff)
  with False show ?thesis
    by (simp add: generate_profit_loss_report_def report_data_Inr format_report_def)
qed

lemma format_report_row_sel [simp]:
  "rTicker (format_report_row ar r) = rTicker r"
  "Buy_Cost (format_report_row ar r) = round2 ar (Buy_Cost r)"
  "Sell_Revenue (format_report_row ar r) = round2 ar (Sell_Revenue r)"
  "Realized_Profit_Loss (format_report_row ar r) = round2 ar (Realized_Profit_Loss r)"
  "Unrealized_Profit_Loss (format_report_row ar r) = round2 ar (Unrealized_Profit_Loss r)"
  "Total_Profit_Loss (format_report_row ar r) = round2 ar (Total_Profit_Loss r)"
  by (simp_all add: format_report_row_def)

lemma report_value_sel [simp]:
  "rTicker (report_value ar df k) = k"
  "Realized_Profit_Loss (report_value ar df k) = realized_profit ar k df"
  "Unrealized_Profit_Loss (report_value ar df k) = unrealized_of k (holdings_rows ar df)"
  by (simp_all add: report_value_def)

lemma unrealized_of_not_held:
  assumes "held_shares k df \<le> 0"
  shows "unrealized_of k (holdings_rows ar df) = 0"
proof -
  from assms have "k \<notin> set (held_tickers df)"
    by (simp add: set_held_tickers)
  then have "k \<notin> hTicker ` set (holdings_rows ar df)"
    using holdings_rows_tickers [of ar df] by (metis set_map)
  then have "filter (\<lambda>h. hTicker h = k) (holdings_rows ar df) = []"
    by (auto simp: filter_empty_conv)
  then show ?thesis
    by (simp add: unrealized_of_def)
qed

lemma sorts_by_Total_descendingD:
  assumes "sorts_by_Total_descending srt"
  shows "mset (srt rows) = mset rows" and "set (srt rows) = set rows"
    and "srt [r] = [r]"
proof -
  show m: "mset (srt rows) = mset rows"
    using assms by (simp add: sorts_by_Total_descending_def)
  then show "set (srt rows) = set rows"
    by (rule mset_eq_setD)
  have "mset (srt [r]) = {#r#}"
    using assms by (simp add: sorts_by_Total_descending_def)
  then show "srt [r] = [r]"
    by simp
qed

lemma sorts_by_Total_descending_sort: "sorts_by_Total_descending sort_Total_descending"
  by (simp add: sorts_by_Total_descending_def sort_Total_descending_def rev_map [symmetric])

text \<open>The rows of the report: one per ticker of the ledger.\<close>

lemma report_tickers:
  assumes "sorts_by_Total_descending srt"
    and "generate_profit_loss_report ar srt df = Inr rows"
  shows "mset (map rTicker rows) = mset (remdups (map Ticker df))"
    and "set rows = (\<lambda>k. format_report_row ar (report_value ar df k)) ` Ticker ` set df"
proof -
  let ?ks = "sort (remdups (map Ticker df))"
  let ?raw = "map (report_value ar df) ?ks"
  have rows: "rows = (if df = [] then [] else map (format_report_row ar) (srt ?raw))"
    using assms(2) by (simp add: generate_profit_loss_report_Inr)
  have "mset (map rTicker (map (format_report_row ar) (srt ?raw))) =
      image_mset (\<lambda>r. rTicker (format_report_row ar r)) (mset (srt ?raw))"
    by (simp add: comp_def)
  also have "\<dots> = image_mset (\<lambda>r. rTicker (format_report_row ar r)) (mset ?raw)"
    by (simp only: sorts_by_Total_descendingD(1) [OF assms(1)])
  also have "\<dots> = mset ?ks"
    by (simp add: comp_def multiset.map_comp)
  also have "\<dots> = mset (remdups (map Ticker df))"
    by simp
  finally have m: "mset (map rTicker (map (format_report_row ar) (srt ?raw))) =
      mset (remdups (map Ticker df))" .
  show "mset (map rTicker rows) = mset (remdups (map Ticker df))"
  proof (cases "df = []")
    case True
    then show ?thesis
      by (simp add: rows)
  next
    case False
    then have "rows = map (format_report_row ar) (srt ?raw)"
      by (simp add: rows)
    with m show ?thesis
      by (simp only:)
  qed
  have "set (map (format_report_row ar) (srt ?raw)) =
      (\<lambda>k. format_report_row ar (report_value ar df k)) ` Ticker ` set df"
    by (simp add: sorts_by_Total_descendingD(2) [OF assms(1)] image_image)
  then show "set rows = (\<lambda>k. format_report_row ar (report_value ar df k)) ` Ticker ` set df"
    by (cases "df = []") (simp_all add: rows)
qed

section \<open>The report: every ticker, and the tickers no longer held\<close>

lemma exited_whole_ledger: "held_shares k ledger_exited \<le> 0"
proof -
  have "net_shares k ledger_exited = 0"
    by (simp add: net_shares_def buy_rows_def sell_rows_def ledger_exited_def)
  then show ?thesis
    by (simp add: held_shares_def)
qed

lemma negative_buy_report_data:
  "report_data exact_arith ledger_negative_buy =
     Inr [\<lparr>rTicker = ''XYZ'', Buy_Cost = - 2, Sell_Revenue = 3, Realized_Profit_Loss = 3,
           Unrealized_Profit_Loss = 0, Total_Profit_Loss = 3\<rparr>]"
  by code_simp

lemma negative_buy_format:
  "format_report_row exact_arith
     \<lparr>rTicker = ''XYZ'', Buy_Cost = - 2, Sell_Revenue = 3, Realized_Profit_Loss = 3,
      Unrealized_Profit_Loss = 0, Total_Profit_Loss = 3\<rparr> =
   \<lparr>rTicker = ''XYZ'', Buy_Cost = - 2, Sell_Revenue = 3, Realized_Profit_Loss = 3,
     Unrealized_Profit_Loss = 0, Total_Profit_Loss = 3\<rparr>"
  by code_simp

lemma negative_buy_report:
  assumes "sorts_by_Total_descending srt"
  shows "generate_profit_loss_report exact_arith srt ledger_negative_buy =
     Inr [\<lparr>rTicker = ''XYZ'', Buy_Cost = - 2, Sell_Revenue = 3, Realized_Profit_Loss = 3,
           Unrealized_Profit_Loss = 0, Total_Profit_Loss = 3\<rparr>]"
proof -
  have "ledger_negative_buy \<noteq> []"
    by (simp add: ledger_negative_buy_def)
  then show ?thesis
    by (simp add: generate_profit_loss_report_def negative_buy_report_data format_report_def
        sorts_by_Total_descendingD(3) [OF assms] negative_buy_format)
qed

lemma negative_buy_figures:
  "net_shares ''XYZ'' ledger_negative_buy = 0"
  "realized_as_stated ''XYZ'' ledger_negative_buy = 5"
  by (simp_all add: net_shares_def realized_as_stated_def buy_rows_def sell_rows_def
      ledger_negative_buy_def)

text \<open>
  Claim C5, as stated, gives the Realized Profit/Loss of a ticker with net shares of 0
  or less as sell revenue minus average buy cost times sold shares. The code subtracts
  the cost of the sold shares only when the average cost is positive. On
  \<open>ledger_negative_buy\<close> the net shares are 0, the formula gives 3 - (-2) * 1 = 5 and the
  report, whatever the sort does, says 3.
\<close>

theorem realized_profit_counterexample:
  "\<not> (\<exists>srt rows. sorts_by_Total_descending srt \<and>
        generate_profit_loss_report exact_arith srt ledger_negative_buy = Inr rows \<and>
        (\<forall>r \<in> set rows. net_shares (rTicker r) ledger_negative_buy \<le> 0 \<longrightarrow>
           Unrealized_Profit_Loss r = 0 \<and>
           Realized_Profit_Loss r = realized_as_stated (rTicker r) ledger_negative_buy))"
proof
  assume "\<exists>srt rows. sorts_by_Total_descending srt \<and>
        generate_profit_loss_report exact_arith srt ledger_negative_buy = Inr rows \<and>
        (\<forall>r \<in> set rows. net_shares (rTicker r) ledger_negative_buy \<le> 0 \<longrightarrow>
           Unrealized_Profit_Loss r = 0 \<and>
           Realized_Profit_Loss r = realized_as_stated (rTicker r) ledger_negative_buy)"
  then obtain srt rows where srt: "sorts_by_Total_descending srt"
    and rows: "generate_profit_loss_report exact_arith srt ledger_negative_buy = Inr rows"
    and val: "\<forall>r \<in> set rows. net_shares (rTicker r) ledger_negative_buy \<le> 0 \<longrightarrow>
           Unrealized_Profit_Loss r = 0 \<and>
           Realized_Profit_Loss r = realized_as_stated (rTicker r) ledger_negative_buy"
    by blast
  let ?r = "\<lparr>rTicker = ''XYZ'', Buy_Cost = - 2, Sell_Revenue = 3, Realized_Profit_Loss = 3,
           Unrealized_Profit_Loss = 0, Total_Profit_Loss = 3\<rparr>"
  from rows negative_buy_report [OF srt] have "rows = [?r]"
    by simp
  then have "?r \<in> set rows"
    by simp
  with val have "net_shares (rTicker ?r) ledger_negative_buy \<le> 0 \<longrightarrow>
      Realized_Profit_Loss ?r = realized_as_stated (rTicker ?r) ledger_negative_buy"
    by blast
  then show False
    by (simp add: negative_buy_figures)
qed

text \<open>
  Claim C5, amended. For every ledger the Profit/Loss Report exists and has exactly one
  row for every ticker that appears in the ledger, whatever its net shares. A row's
  Realized Profit/Loss is, rounded to two decimals, the sell revenue minus the cost
  basis of the sold shares, where the cost basis is average buy cost times sold shares
  if the average buy cost and the sold quantity are both positive and 0 otherwise. For
  every ticker whose int64 share count is not positive (in particular whose net shares
  are not positive and lie in the int64 range) the row's Unrealized Profit/Loss is 0.
\<close>

theorem report_has_every_ticker:
  assumes "sorts_by_Total_descending srt"
  shows "\<exists>rows. generate_profit_loss_report ar srt df = Inr rows \<and>
     distinct (map rTicker rows) \<and> set (map rTicker rows) = Ticker ` set df \<and>
     (\<forall>r \<in> set rows.
        Realized_Profit_Loss r =
          round2 ar (fsub ar (sell_revenue ar (rTicker r) df)
            (if 0 < average_cost ar (rTicker r) df \<and> 0 < sold_shares (rTicker r) df
             then fmul ar (average_cost ar (rTicker r) df)
                    (f_of_int ar (sold_shares (rTicker r) df))
             else 0)) \<and>
        (held_shares (rTicker r) df \<le> 0 \<longrightarrow> Unrealized_Profit_Loss r = 0) \<and>
        (- (2 ^ 63) \<le> net_shares (rTicker r) df \<and> net_shares (rTicker r) df \<le> 0 \<longrightarrow>
           Unrealized_Profit_Loss r = 0))"
proof -
  obtain rows where rows: "generate_profit_loss_report ar srt df = Inr rows"
    by (simp add: generate_profit_loss_report_Inr)
  note t = report_tickers [OF assms rows]
  have "distinct (remdups (map Ticker df))"
    by simp
  with t(1) have d: "distinct (map rTicker rows)"
    by (metis mset_eq_imp_distinct_iff)
  from t(1) have "set (map rTicker rows) = set (remdups (map Ticker df))"
    by (rule mset_eq_setD)
  then have s: "set (map rTicker rows) = Ticker ` set df"
    by simp
  have v: "Realized_Profit_Loss r =
          round2 ar (fsub ar (sell_revenue ar (rTicker r) df)
            (if 0 < average_cost ar (rTicker r) df \<and> 0 < sold_shares (rTicker r) df
             then fmul ar (average_cost ar (rTicker r) df)
                    (f_of_int ar (sold_shares (rTicker r) df))
             else 0)) \<and>
        (held_shares (rTicker r) df \<le> 0 \<longrightarrow> Unrealized_Profit_Loss r = 0) \<and>
        (- (2 ^ 63) \<le> net_shares (rTicker r) df \<and> net_shares (rTicker r) df \<le> 0 \<longrightarrow>
           Unrealized_Profit_Loss r = 0)"
    if "r \<in> set rows" for r
  proof -
    from that t(2) obtain k where r: "r = format_report_row ar (report_value ar df k)"
      by auto
    have u: "Unrealized_Profit_Loss r = 0" if "held_shares k df \<le> 0"
      by (simp add: r unrealized_of_not_held [OF that] round2_zero)
    have "held_shares k df \<le> 0"
      if lo: "- (2 ^ 63) \<le> net_shares k df" and hi: "net_shares k df \<le> 0"
    proof -
      from hi have "net_shares k df < 2 ^ 63"
        by (rule le_less_trans) simp
      with lo hi show ?thesis
        unfolding held_shares_def by (simp only: int64_in_range)
    qed
    with u show ?thesis
      by (simp add: r realized_profit_def cost_basis_sold_def)
  qed
  from rows d s v show ?thesis
    by blast
qed

text \<open>
  On \<open>ledger_exited\<close> the ten shares bought at 150 were all sold at 160: the ticker is
  no longer held, and its row shows the realized profit of 100 and no unrealized profit.
\<close>

lemma exited_report_figures:
  "held_shares ''AAPL'' ledger_exited \<le> 0"
  "round2 exact_arith (fsub exact_arith (sell_revenue exact_arith ''AAPL'' ledger_exited)
     (if 0 < average_cost exact_arith ''AAPL'' ledger_exited \<and> 0 < sold_shares ''AAPL'' ledger_exited
      then fmul exact_arith (average_cost exact_arith ''AAPL'' ledger_exited)
             (f_of_int exact_arith (sold_shares ''AAPL'' ledger_exited))
      else 0)) = 100"
  "''AAPL'' \<in> Ticker ` set ledger_exited"
proof -
  show "held_shares ''AAPL'' ledger_exited \<le> 0"
    by (rule exited_whole_ledger)
  show "round2 exact_arith (fsub exact_arith (sell_revenue exact_arith ''AAPL'' ledger_exited)
     (if 0 < average_cost exact_arith ''AAPL'' ledger_exited \<and> 0 < sold_shares ''AAPL'' ledger_exited
      then fmul exact_arith (average_cost exact_arith ''AAPL'' ledger_exited)
             (f_of_int exact_arith (sold_shares ''AAPL'' ledger_exited))
      else 0)) = 100"
    by code_simp
  show "''AAPL'' \<in> Ticker ` set ledger_exited"
    by (simp add: ledger_exited_def)
qed

theorem report_has_every_ticker_witness:
  "sorts_by_Total_descending sort_Total_descending \<and>
   held_shares ''AAPL'' ledger_exited \<le> 0 \<and>
   (\<exists>rows r. generate_profit_loss_report exact_arith sort_Total_descending ledger_exited =
        Inr rows \<and>
      r \<in> set rows \<and> rTicker r = ''AAPL'' \<and> Realized_Profit_Loss r = 100 \<and>
      Unrealized_Profit_Loss r = 0)"
proof -
  obtain rows where
    rows: "generate_profit_loss_report exact_arith sort_Total_descending ledger_exited = Inr rows"
    and tick: "set (map rTicker rows) = Ticker ` set ledger_exited"
    and val: "\<forall>r \<in> set rows.
        Realized_Profit_Loss r =
          round2 exact_arith (fsub exact_arith (sell_revenue exact_arith (rTicker r) ledger_exited)
            (if 0 < average_cost exact_arith (rTicker r) ledger_exited \<and>
                0 < sold_shares (rTicker r) ledger_exited
             then fmul exact_arith (average_cost exact_arith (rTicker r) ledger_exited)
                    (f_of_int exact_arith (sold_shares (rTicker r) ledger_exited))
             else 0)) \<and>
        (held_shares (rTicker r) ledger_exited \<le> 0 \<longrightarrow> Unrealized_Profit_Loss r = 0) \<and>
        (- (2 ^ 63) \<le> net_shares (rTicker r) ledger_exited \<and>
           net_shares (rTicker r) ledger_exited \<le> 0 \<longrightarrow>
           Unrealized_Profit_Loss r = 0)"
    using report_has_every_ticker [OF sorts_by_Total_descending_sort, of exact_arith ledger_exited]
    by blast
  from tick exited_report_figures(3) have "''AAPL'' \<in> rTicker ` set rows"
    by simp
  then obtain r where r: "r \<in> set rows" "rTicker r = ''AAPL''"
    by force
  from val r(1) have a: "Realized_Profit_Loss r =
          round2 exact_arith (fsub exact_arith (sell_revenue exact_arith (rTicker r) ledger_exited)
            (if 0 < average_cost exact_arith (rTicker r) ledger_exited \<and>
                0 < sold_shares (rTicker r) ledger_exited
             then fmul exact_arith (average_cost exact_arith (rTicker r) ledger_exited)
                    (f_of_int exact_arith (sold_shares (rTicker r) ledger_exited))
             else 0))"
    and b: "held_shares (rTicker r) ledger_exited \<le> 0 \<longrightarrow> Unrealized_Profit_Loss r = 0"
    by blast+
  from a have "Realized_Profit_Loss r = 100"
    unfolding r(2) by (simp only: exited_report_figures(2))
  moreover from b exited_report_figures(1) have "Unrealized_Profit_Loss r = 0"
    unfolding r(2) by blast
  ultimately have "Realized_Profit_Loss r = 100" "Unrealized_Profit_Loss r = 0"
    by blast+
  with rows r sorts_by_Total_descending_sort exited_report_figures(1) show ?thesis
    by blast
qed

section \<open>Transaction validation\<close>

text \<open>
  Against a holdings frame that has its columns, validation behaves as described: it
  accepts exactly the proposals with a non-empty ticker and a positive quantity that, if
  they are sales, find the ticker in the frame with at least the proposed quantity of
  shares (the first row of the ticker is the one read); every rejection carries a
  message, and the quantity is only compared, never changed.
\<close>

lemma validate_transaction_Frame:
  "\<exists>ok msg. validate_transaction tr (Frame rows) = Inr (ok, msg) \<and>
     (ok \<longleftrightarrow> Ticker tr \<noteq> [] \<and> 0 < Quantity tr \<and>
        (Transaction_Type tr = Sell \<longrightarrow>
           (case filter (\<lambda>h. hTicker h = Ticker tr) rows of
              [] \<Rightarrow> False | h # _ \<Rightarrow> Quantity tr \<le> Shares h))) \<and>
     (\<not> ok \<longrightarrow> msg \<noteq> [])"
proof (cases "filter (\<lambda>h. hTicker h = Ticker tr) rows")
  case Nil
  then have "Ticker tr \<notin> hTicker ` set rows"
    by (auto simp: filter_empty_conv)
  with Nil show ?thesis
    by (simp add: validate_transaction_def column_def Let_def)
next
  case (Cons h hs)
  then have "h \<in> set (filter (\<lambda>h. hTicker h = Ticker tr) rows)"
    by simp
  then have "Ticker tr \<in> hTicker ` set rows"
    by force
  with Cons show ?thesis
    by (auto simp: validate_transaction_def column_def values0_def Let_def)
qed

text \<open>
  The example of the specification: five shares held, ten offered for sale.
\<close>

lemma validate_insufficient_shares:
  "validate_transaction sell_ten
     (Frame [\<lparr>hTicker = ''AAPL'', Shares = 5, Average_Cost = 100, Total_Cost = 500,
              Current_Value = 500, Profit_Loss = 0, Return_Pct = 0\<rparr>]) =
   Inr (False, ''Cannot sell 10 shares of AAPL. You only own 5 shares.'')"
  by code_simp

text \<open>With an empty frame that has its columns the sale is turned down with a message.\<close>

lemma validate_untracked_ticker:
  "validate_transaction sell_untracked (Frame []) =
     Inr (False, ''Cannot sell MSFT. You don't own any shares of this stock.'')"
  by code_simp

text \<open>
  After every position has been closed, as in \<open>ledger_exited\<close>, the Holdings Calculator
  returns the frame built from the empty list, which has no column.
\<close>

lemma exited_holdings: "get_current_holdings ar ledger_exited = Inr NoColumns"
proof -
  have "set (held_tickers ledger_exited) = {}"
    by (simp add: set_held_tickers exited_whole_ledger not_less)
  then have "held_tickers ledger_exited = []"
    by simp
  moreover have "ledger_exited \<noteq> []"
    by (simp add: ledger_exited_def)
  ultimately show ?thesis
    by (simp add: get_current_holdings_Inr format_holdings_def data_frame_def)
qed

lemma sell_untracked_KeyError: "validate_transaction sell_untracked NoColumns = Inl KeyError"
  by code_simp

text \<open>
  Claim C6. The claim wants every sale of a ticker that is not held rejected with an
  error message. After every position has been closed, as in \<open>ledger_exited\<close>, the
  Holdings Calculator returns, in every arithmetic, the frame built from the empty
  list, which has no \<open>Ticker\<close> column; validating a sale against it fails with
  \<open>KeyError\<close> instead of returning a rejection.
\<close>

theorem validate_sell_fails_without_columns:
  "(\<forall>ar. get_current_holdings ar ledger_exited = Inr NoColumns) \<and>
   validate_transaction sell_untracked NoColumns = Inl KeyError"
  by (simp add: exited_holdings sell_untracked_KeyError)

text \<open>The price of the proposal is never read.\<close>

lemma validate_transaction_ignores_price:
  "validate_transaction (tr\<lparr>Price := p\<rparr>) fr = validate_transaction tr fr"
  by (simp add: validate_transaction_def)

text \<open>
  Claim C7. The claim wants every proposal with a price of 0 or less rejected. The
  function checks the ticker and the quantity only: a purchase of one share at price 0,
  or at price -5, is accepted with the empty message.
\<close>

theorem validate_accepts_nonpositive_price:
  "Price buy_at_zero \<le> 0 \<and> Price buy_at_negative \<le> 0 \<and>
   validate_transaction buy_at_zero (Frame []) = Inr (True, []) \<and>
   validate_transaction buy_at_negative (Frame []) = Inr (True, [])"
  by (simp add: validate_transaction_def buy_at_zero_def buy_at_negative_def)

end
